theory Spec2Isabelle
  imports Complex_Main
begin

section \<open>JavaScript values used by the travel planner\<close>

text \<open>
  A JavaScript \<open>number\<close>. The finite doubles are idealised as exact rationals, next to
  the two infinities and NaN: a finite value stands for the double nearest to it, so
  rounding to 53 bits, underflow and the sign of zero are outside this model. Overflow is
  inside it: a result at or beyond \<open>2^1024 - 2^970\<close>, half way between the largest double
  and \<open>2^1024\<close>, rounds to an infinity.
\<close>

datatype number = Num rat | PInf | NInf | NaN

definition double_limit :: rat where
  "double_limit = 2 ^ 1024 - 2 ^ 970"

definition to_number :: "rat \<Rightarrow> number" where
  "to_number q =
     (if double_limit \<le> q then PInf else if q \<le> - double_limit then NInf else Num q)"

text \<open>\<open>isNaN(x)\<close> on a number.\<close>

fun isNaN :: "number \<Rightarrow> bool" where
  "isNaN NaN = True"
| "isNaN _ = False"

text \<open>Truthiness of a number (\<open>!x\<close> is its negation): \<open>0\<close> and \<open>NaN\<close> are falsy.\<close>

fun truthy :: "number \<Rightarrow> bool" where
  "truthy NaN = False"
| "truthy (Num q) = (q \<noteq> 0)"
| "truthy _ = True"

text \<open>Unary minus, \<open>x + y\<close>, \<open>x - y\<close> and \<open>x / y\<close>.\<close>

fun num_neg :: "number \<Rightarrow> number" where
  "num_neg (Num q) = Num (- q)"
| "num_neg PInf = NInf"
| "num_neg NInf = PInf"
| "num_neg NaN = NaN"

fun num_add :: "number \<Rightarrow> number \<Rightarrow> number" where
  "num_add NaN _ = NaN"
| "num_add _ NaN = NaN"
| "num_add PInf NInf = NaN"
| "num_add NInf PInf = NaN"
| "num_add PInf _ = PInf"
| "num_add _ PInf = PInf"
| "num_add NInf _ = NInf"
| "num_add _ NInf = NInf"
| "num_add (Num a) (Num b) = to_number (a + b)"

definition num_sub :: "number \<Rightarrow> number \<Rightarrow> number" where
  "num_sub x y = num_add x (num_neg y)"

text \<open>Division; a zero divisor is taken as \<open>+0\<close>.\<close>

fun num_div :: "number \<Rightarrow> number \<Rightarrow> number" where
  "num_div NaN _ = NaN"
| "num_div _ NaN = NaN"
| "num_div (Num a) (Num b) =
     (if b = 0 then (if a = 0 then NaN else if 0 < a then PInf else NInf)
      else to_number (a / b))"
| "num_div (Num a) _ = Num 0"
| "num_div PInf (Num b) = (if 0 \<le> b then PInf else NInf)"
| "num_div NInf (Num b) = (if 0 \<le> b then NInf else PInf)"
| "num_div _ _ = NaN"

text \<open>The comparisons \<open>x > y\<close> and \<open>x <= y\<close>: false as soon as one side is NaN.\<close>

fun num_gt :: "number \<Rightarrow> number \<Rightarrow> bool" where
  "num_gt NaN _ = False"
| "num_gt _ NaN = False"
| "num_gt (Num a) (Num b) = (b < a)"
| "num_gt PInf PInf = False"
| "num_gt PInf _ = True"
| "num_gt NInf _ = False"
| "num_gt (Num a) NInf = True"
| "num_gt (Num a) PInf = False"

fun num_le :: "number \<Rightarrow> number \<Rightarrow> bool" where
  "num_le NaN _ = False"
| "num_le _ NaN = False"
| "num_le (Num a) (Num b) = (a \<le> b)"
| "num_le NInf _ = True"
| "num_le _ PInf = True"
| "num_le PInf _ = False"
| "num_le (Num a) NInf = False"

text \<open>
  A JavaScript string is a \<open>string\<close>, one \<open>char\<close> for each code unit up to 255. The
  tests below look for ASCII digits, letters, signs and separators; the code units that
  are left out are none of these (a few of them are white space, like the ones listed
  further down).
\<close>

definition is_digit :: "char \<Rightarrow> bool" where
  "is_digit c = (c \<in> set ''0123456789'')"

definition digit_val :: "char \<Rightarrow> nat" where
  "digit_val c =
     (case map_of (zip ''0123456789'' [0, 1, 2, 3, 4, 5, 6, 7, 8, 9]) c of
        Some v \<Rightarrow> v
      | None \<Rightarrow> 0)"

text \<open>The mathematical value of a run of decimal digits.\<close>

definition digits_val :: "string \<Rightarrow> nat" where
  "digits_val ds = foldl (\<lambda>v c. 10 * v + digit_val c) 0 ds"

text \<open>\<open>[A-Z]\<close> under the \<open>i\<close> flag: the ASCII letters of either case.\<close>

definition is_letter :: "char \<Rightarrow> bool" where
  "is_letter c =
     (c \<in> set ''ABCDEFGHIJKLMNOPQRSTUVWXYZ'' \<or> c \<in> set ''abcdefghijklmnopqrstuvwxyz'')"

text \<open>
  \<open>toUpperCase\<close>, on the ASCII letters: the only characters the match below hands it.
\<close>

definition upper_char :: "char \<Rightarrow> char" where
  "upper_char c =
     (case map_of (zip ''abcdefghijklmnopqrstuvwxyz'' ''ABCDEFGHIJKLMNOPQRSTUVWXYZ'') c of
        Some u \<Rightarrow> u
      | None \<Rightarrow> c)"

definition toUpperCase :: "string \<Rightarrow> string" where
  "toUpperCase s = map upper_char s"

text \<open>
  White space as \<open>trim\<close> and \<open>parseFloat\<close> skip it: tab, line feed, vertical tab, form
  feed, carriage return, space and no-break space.
\<close>

definition is_white :: "char \<Rightarrow> bool" where
  "is_white c =
     (c \<in> set [CHR 0x09, CHR 0x0A, CHR 0x0B, CHR 0x0C, CHR 0x0D, CHR 0x20, CHR 0xA0])"

definition trim :: "string \<Rightarrow> string" where
  "trim s = rev (dropWhile is_white (rev (dropWhile is_white s)))"

fun starts_with :: "string \<Rightarrow> string \<Rightarrow> bool" where
  "starts_with [] s = True"
| "starts_with (p # ps) [] = False"
| "starts_with (p # ps) (c # cs) = (p = c \<and> starts_with ps cs)"

text \<open>\<open>s.includes(t)\<close>, by leftmost search.\<close>

fun str_includes :: "string \<Rightarrow> string \<Rightarrow> bool" where
  "str_includes [] t = (t = [])"
| "str_includes (c # cs) t = (starts_with t (c # cs) \<or> str_includes cs t)"

subsection \<open>parseFloat\<close>

text \<open>
  \<open>parseFloat\<close> skips leading white space and reads the longest prefix that is a
  \<open>StrDecimalLiteral\<close>: an optional sign, then \<open>Infinity\<close>, or digits with an optional
  fraction and an optional exponent. With no such prefix the result is NaN; a literal
  beyond the range of the doubles gives \<open>Infinity\<close>.
\<close>

definition pow10 :: "int \<Rightarrow> rat" where
  "pow10 e = (if 0 \<le> e then 10 ^ nat e else 1 / 10 ^ nat (- e))"

text \<open>The exponent part at the head of the rest, 0 when there is none.\<close>

definition exponent_digits :: "string \<Rightarrow> string" where
  "exponent_digits r = takeWhile is_digit r"

definition parse_exponent :: "string \<Rightarrow> int" where
  "parse_exponent r =
     (case r of
        [] \<Rightarrow> 0
      | e # r' \<Rightarrow>
          if e = CHR ''e'' \<or> e = CHR ''E'' then
            (case r' of
               [] \<Rightarrow> 0
             | s # ds \<Rightarrow>
                 if s = CHR ''+'' then int (digits_val (exponent_digits ds))
                 else if s = CHR ''-'' then - int (digits_val (exponent_digits ds))
                 else int (digits_val (exponent_digits r')))
          else 0)"

definition unsigned_literal :: "string \<Rightarrow> number" where
  "unsigned_literal r =
     (if starts_with ''Infinity'' r then PInf
      else
        let ip = takeWhile is_digit r;
            r1 = dropWhile is_digit r;
            dot = (case r1 of [] \<Rightarrow> False | c # _ \<Rightarrow> c = CHR ''.'');
            fp = (if dot then takeWhile is_digit (tl r1) else []);
            r2 = (if dot then dropWhile is_digit (tl r1) else r1)
        in if ip = [] \<and> fp = [] then NaN
           else to_number
                  ((of_nat (digits_val ip) + of_nat (digits_val fp) / 10 ^ length fp)
                     * pow10 (parse_exponent r2)))"

definition parseFloat :: "string \<Rightarrow> number" where
  "parseFloat s =
     (case dropWhile is_white s of
        [] \<Rightarrow> NaN
      | c # r \<Rightarrow>
          if c = CHR ''-'' then num_neg (unsigned_literal r)
          else if c = CHR ''+'' then unsigned_literal r
          else unsigned_literal (c # r))"

text \<open>\<open>x || 0\<close> on a number.\<close>

definition or_zero :: "number \<Rightarrow> number" where
  "or_zero x = (if truthy x then x else Num 0)"

section \<open>The component\<close>

record activity =
  name :: string
  time :: string
  cost :: string
  actualCost :: "number option"
  checkPriceLink :: string

record dailyPlan =
  day :: number
  theme :: string
  activities :: "activity list"

record parsedCurrency =
  amount :: number
  currencyCode :: string

subsection \<open>parseCurrency\<close>

text \<open>
  \<open>currencyString.match(/[A-Z]{2,3}/i)\<close>: the leftmost run of two letters, with the third
  one when it is there.
\<close>

fun currencyCodeMatch :: "string \<Rightarrow> string option" where
  "currencyCodeMatch [] = None"
| "currencyCodeMatch [c] = None"
| "currencyCodeMatch (c # d # r) =
     (if is_letter c \<and> is_letter d then
        Some (c # d # (case r of [] \<Rightarrow> [] | e # _ \<Rightarrow> if is_letter e then [e] else []))
      else currencyCodeMatch (d # r))"

text \<open>\<open>replace(/[^\d,\.]/g, '')\<close>, then \<open>replace(/\./g, '').replace(/,/g, '.')\<close>.\<close>

definition cleanedString :: "string \<Rightarrow> string" where
  "cleanedString s = filter (\<lambda>c. is_digit c \<or> c = CHR '','' \<or> c = CHR ''.'') s"

definition normalizedString :: "string \<Rightarrow> string" where
  "normalizedString s =
     map (\<lambda>c. if c = CHR '','' then CHR ''.'' else c) (filter (\<lambda>c. c \<noteq> CHR ''.'') s)"

definition parseCurrency :: "string \<Rightarrow> parsedCurrency" where
  "parseCurrency currencyString =
     (if currencyString = [] then \<lparr>amount = Num 0, currencyCode = ''IDR''\<rparr>
      else
        \<lparr>amount = or_zero (parseFloat (normalizedString (cleanedString currencyString))),
         currencyCode =
           (case currencyCodeMatch currencyString of
              Some m \<Rightarrow> toUpperCase m
            | None \<Rightarrow> ''IDR'')\<rparr>)"

subsection \<open>The signals of AppComponent\<close>

record app_state =
  destination :: string
  duration :: "number option"
  interests :: string
  totalBudgetInput :: string
  totalBudget :: "number option"
  itinerary :: "dailyPlan list option"
  isLoading :: bool
  error :: "string option"
  totalEstimatedCost :: number
  totalActualCost :: number
  averageDailyBudgetRemaining :: "number option"

text \<open>The field initialisers of the class.\<close>

definition initial_state :: app_state where
  "initial_state =
     \<lparr>destination = [], duration = None, interests = [], totalBudgetInput = [],
      totalBudget = None, itinerary = None, isLoading = False, error = None,
      totalEstimatedCost = Num 0, totalActualCost = Num 0,
      averageDailyBudgetRemaining = None\<rparr>"

subsection \<open>calculateSummary\<close>

text \<open>
  The two nested \<open>for ... of\<close> loops, carrying \<open>(totalEst, totalAct)\<close>: the inner one
  over the activities of a day, the outer one over the days.
\<close>

fun activity_loop :: "activity list \<Rightarrow> number \<times> number \<Rightarrow> number \<times> number" where
  "activity_loop [] tot = tot"
| "activity_loop (a # rest) (totalEst, totalAct) =
     activity_loop rest
       (num_add totalEst (amount (parseCurrency (cost a))),
        (case actualCost a of
           None \<Rightarrow> totalAct
         | Some c \<Rightarrow> if \<not> isNaN c then num_add totalAct c else totalAct))"

fun day_loop :: "dailyPlan list \<Rightarrow> number \<times> number \<Rightarrow> number \<times> number" where
  "day_loop [] tot = tot"
| "day_loop (dayPlan # rest) tot = day_loop rest (activity_loop (activities dayPlan) tot)"

definition calculateSummary :: "app_state \<Rightarrow> app_state" where
  "calculateSummary s =
     (let tot = (case itinerary s of
                   None \<Rightarrow> (Num 0, Num 0)
                 | Some currentItinerary \<Rightarrow> day_loop currentItinerary (Num 0, Num 0));
          totalEst = fst tot;
          totalAct = snd tot;
          s1 = s\<lparr>totalEstimatedCost := totalEst, totalActualCost := totalAct\<rparr>
      in case totalBudget s1 of
           None \<Rightarrow> s1\<lparr>averageDailyBudgetRemaining := None\<rparr>
         | Some budget \<Rightarrow>
             (case duration s1 of
                None \<Rightarrow> s1\<lparr>averageDailyBudgetRemaining := None\<rparr>
              | Some durationDays \<Rightarrow>
                  if num_gt durationDays (Num 0) then
                    s1\<lparr>averageDailyBudgetRemaining :=
                         Some (num_div (num_sub budget totalAct) durationDays)\<rparr>
                  else s1\<lparr>averageDailyBudgetRemaining := None\<rparr>))"

subsection \<open>onTotalBudgetInputChange\<close>

definition onTotalBudgetInputChange :: "app_state \<Rightarrow> app_state" where
  "onTotalBudgetInputChange s =
     calculateSummary (s\<lparr>totalBudget := Some (amount (parseCurrency (totalBudgetInput s)))\<rparr>)"

subsection \<open>generateItinerary\<close>

text \<open>
  What the function reaches outside the component: the call of the generation service
  (which resolves to a response or rejects), \<open>JSON.parse\<close> read at the type
  \<open>DailyPlan[]\<close> the source casts its result to, and the conversion of a number to text
  inside the template string. A thrown value is a \<open>SyntaxError\<close> with its message, or
  another value with its \<open>message\<close> property (the empty message stands for a missing
  one), or \<open>null\<close> or \<open>undefined\<close>, which have no properties to read.
\<close>

datatype js_error = SyntaxError string | OtherError string | Nullish

record response =
  response_text :: string

record env =
  generateContent :: "string \<Rightarrow> js_error + response"
  JSON_parse :: "string \<Rightarrow> js_error + dailyPlan list"
  number_toString :: "number \<Rightarrow> string"

definition validation_message :: string where
  "validation_message = ''Harap isi Tujuan Wisata dan Durasi (Hari).''"

definition malformed_message :: string where
  "malformed_message =
     ''Gagal memproses itinerary: Model mungkin mengembalikan format yang tidak lengkap '' @
     ''atau tidak valid. Coba lagi atau sesuaikan prompt Anda.''"

definition generic_message :: "string \<Rightarrow> string" where
  "generic_message m =
     ''Gagal membuat itinerary: '' @ (if m = [] then ''Terjadi kesalahan tidak terduga.'' else m)"

text \<open>The template string of the prompt.\<close>

definition buildPrompt :: "env \<Rightarrow> app_state \<Rightarrow> string" where
  "buildPrompt e s =
     ''Buatkan itinerary perjalanan harian lengkap dalam bahasa Indonesia untuk destinasi '' @
     [CHR 0x22] @ destination s @ [CHR 0x22] @ '' selama '' @
     (case duration s of None \<Rightarrow> ''null'' | Some d \<Rightarrow> number_toString e d) @
     '' hari, dengan fokus pada '' @ [CHR 0x22] @ interests s @ [CHR 0x22] @
     ''. Sertakan nama tempat/aktivitas, jam buka/tutup (atau perkiraan waktu), estimasi '' @
     ''biaya dalam mata uang lokal (sertakan kode mata uang seperti '' @
     [CHR 0x27] @ ''IDR'' @ [CHR 0x27] @ '' atau '' @ [CHR 0x27] @ ''JPY'' @ [CHR 0x27] @
     ''), dan link placeholder untuk cek harga untuk setiap aktivitas. Format output '' @
     ''harus JSON sesuai skema yang diberikan.''"

text \<open>The assignments made before the call.\<close>

definition startGeneration :: "app_state \<Rightarrow> app_state" where
  "startGeneration s =
     s\<lparr>isLoading := True, error := None, itinerary := None,
       totalEstimatedCost := Num 0, totalActualCost := Num 0,
       averageDailyBudgetRemaining := None\<rparr>"

text \<open>The two \<open>map\<close>s that initialise \<open>actualCost\<close>.\<close>

definition initializeItinerary :: "dailyPlan list \<Rightarrow> dailyPlan list" where
  "initializeItinerary parsedItinerary =
     map (\<lambda>dayPlan. dayPlan\<lparr>activities :=
            map (\<lambda>activity. activity\<lparr>actualCost := None\<rparr>) (activities dayPlan)\<rparr>)
       parsedItinerary"

text \<open>
  The \<open>catch\<close> block, with its test
  \<open>e instanceof SyntaxError && e.message.includes('JSON')\<close>. For a thrown \<open>null\<close> or
  \<open>undefined\<close> the test is false and reading \<open>e.message\<close> in the other branch throws
  in its turn: no message is set and the exception leaves the function (\<open>None\<close>).
\<close>

definition catchError :: "js_error \<Rightarrow> app_state \<Rightarrow> app_state option" where
  "catchError e s =
     (case e of
        SyntaxError m \<Rightarrow>
          if str_includes m ''JSON'' then Some (s\<lparr>error := Some malformed_message\<rparr>)
          else Some (s\<lparr>error := Some (generic_message m)\<rparr>)
      | OtherError m \<Rightarrow> Some (s\<lparr>error := Some (generic_message m)\<rparr>)
      | Nullish \<Rightarrow> None)"

text \<open>
  One run of the asynchronous function: the state while the call is pending (when the run
  gets that far), the state when the function is done, the prompts handed to the
  generation service, and whether the promise of the function is rejected instead of
  fulfilled.
\<close>

record run =
  awaiting :: "app_state option"
  settled :: app_state
  calls :: "string list"
  rejected :: bool

definition generateItinerary :: "env \<Rightarrow> app_state \<Rightarrow> run" where
  "generateItinerary e s =
     (if destination s = [] \<or> (case duration s of None \<Rightarrow> True | Some d \<Rightarrow> \<not> truthy d) then
        \<lparr>awaiting = None, settled = s\<lparr>error := Some validation_message\<rparr>, calls = [],
         rejected = False\<rparr>
      else
        let s1 = startGeneration s;
            prompt = buildPrompt e s1;
            s2 = (case generateContent e prompt of
                    Inl err \<Rightarrow> catchError err s1
                  | Inr resp \<Rightarrow>
                      (case JSON_parse e (trim (response_text resp)) of
                         Inl err \<Rightarrow> catchError err s1
                       | Inr parsedItinerary \<Rightarrow>
                           Some (calculateSummary
                             (s1\<lparr>itinerary := Some (initializeItinerary parsedItinerary)\<rparr>))))
        in case s2 of
             Some s3 \<Rightarrow>
               \<lparr>awaiting = Some s1, settled = s3\<lparr>isLoading := False\<rparr>, calls = [prompt],
                rejected = False\<rparr>
           | None \<Rightarrow>
               \<lparr>awaiting = Some s1, settled = s1\<lparr>isLoading := False\<rparr>, calls = [prompt],
                rejected = True\<rparr>)"

section \<open>Notions of the specification\<close>

text \<open>The strings \<open>parseFloat\<close> is handed by \<open>parseCurrency\<close>: digits and periods only.\<close>

definition digits_dots :: "string \<Rightarrow> bool" where
  "digits_dots s = list_all (\<lambda>c. is_digit c \<or> c = CHR ''.'') s"

text \<open>
  A cost string of the shape \<open><number>[.,]*<number>* <CODE>\<close> is a numeral and, after one
  space, a currency code of two or three letters. The numeral starts with a digit and goes
  on with digits, periods and commas.
\<close>

definition cost_shape :: "string \<Rightarrow> string \<Rightarrow> bool" where
  "cost_shape body code =
     (body \<noteq> [] \<and> is_digit (hd body) \<and>
      list_all (\<lambda>c. is_digit c \<or> c = CHR ''.'' \<or> c = CHR '','') body \<and>
      list_all is_letter code \<and> (length code = 2 \<or> length code = 3))"

text \<open>The number of commas in a numeral.\<close>

definition commas :: "string \<Rightarrow> nat" where
  "commas body = length (filter (\<lambda>c. c = CHR '','') body)"

text \<open>
  The value such a numeral is meant to have when periods group thousands and the comma is
  the decimal separator: the digits before the comma are the whole part, those after it
  the fraction.
\<close>

definition intended_amount :: "string \<Rightarrow> rat" where
  "intended_amount body =
     (let whole = filter is_digit (takeWhile (\<lambda>c. c \<noteq> CHR '','') body);
          frac = filter is_digit (dropWhile (\<lambda>c. c \<noteq> CHR '','') body)
      in of_nat (digits_val whole) + of_nat (digits_val frac) / 10 ^ length frac)"

text \<open>A number that is neither negative nor NaN.\<close>

fun nonneg_number :: "number \<Rightarrow> bool" where
  "nonneg_number (Num q) = (0 \<le> q)"
| "nonneg_number PInf = True"
| "nonneg_number _ = False"

text \<open>The sum of a list of numbers, added up from 0 in order.\<close>

definition num_sum :: "number list \<Rightarrow> number" where
  "num_sum xs = foldl num_add (Num 0) xs"

text \<open>All activities of all days of an itinerary, none for the absent itinerary.\<close>

definition all_activities :: "dailyPlan list option \<Rightarrow> activity list" where
  "all_activities it = (case it of None \<Rightarrow> [] | Some days \<Rightarrow> concat (map activities days))"

text \<open>The actual costs that are entered and are numbers.\<close>

definition counted_costs :: "activity list \<Rightarrow> number list" where
  "counted_costs acts =
     concat (map (\<lambda>a. case actualCost a of
                         None \<Rightarrow> []
                       | Some c \<Rightarrow> if isNaN c then [] else [c]) acts)"

text \<open>The three figures of the budget summary.\<close>

definition summary :: "app_state \<Rightarrow> number \<times> number \<times> number option" where
  "summary s = (totalEstimatedCost s, totalActualCost s, averageDailyBudgetRemaining s)"

subsection \<open>Sample data\<close>

text \<open>
  A stand-in for the outside world with fixed answers: what the service call resolves or
  rejects with, and what \<open>JSON.parse\<close> returns or throws.
\<close>

definition mock_env :: "js_error + response \<Rightarrow> js_error + dailyPlan list \<Rightarrow> env" where
  "mock_env answer parsed =
     \<lparr>generateContent = (\<lambda>prompt. answer), JSON_parse = (\<lambda>txt. parsed),
      number_toString = (\<lambda>n. ''3'')\<rparr>"

text \<open>The form filled in for three days in Kyoto.\<close>

definition kyoto_state :: app_state where
  "kyoto_state =
     initial_state\<lparr>destination := ''Kyoto'', duration := Some (Num 3),
                   interests := ''temples''\<rparr>"

text \<open>A day with two activities, one of them paid for already.\<close>

definition sample_day :: dailyPlan where
  "sample_day =
     \<lparr>day = Num 1, theme = ''Temples'',
      activities =
        [\<lparr>name = ''Kinkaku-ji'', time = ''09:00 - 17:00'', cost = ''500 JPY'',
          actualCost = Some (Num 20), checkPriceLink = ''https://example.com/kinkakuji''\<rparr>,
         \<lparr>name = ''Gion'', time = ''18:00'', cost = ''1.500,50 JPY'',
          actualCost = Some NaN, checkPriceLink = ''https://example.com/gion''\<rparr>]\<rparr>"

text \<open>A budget of 100 for four days, with that day planned.\<close>

definition budget_state :: app_state where
  "budget_state =
     initial_state\<lparr>totalBudget := Some (Num 100), duration := Some (Num 4),
                   itinerary := Some [sample_day]\<rparr>"

section \<open>Properties\<close>

subsection \<open>Classes of characters and the currency code\<close>

lemma white_not_letter: "is_white c \<Longrightarrow> \<not> is_letter c"
  by (auto simp: is_white_def is_letter_def)

lemma white_not_kept: "is_white c \<Longrightarrow> \<not> (is_digit c \<or> c = CHR '','' \<or> c = CHR ''.'')"
  by (auto simp: is_white_def is_digit_def)

lemma digit_not_letter: "is_digit c \<Longrightarrow> \<not> is_letter c"
  by (auto simp: is_digit_def is_letter_def)

lemma letter_not_kept: "is_letter c \<Longrightarrow> \<not> (is_digit c \<or> c = CHR '','' \<or> c = CHR ''.'')"
  by (auto simp: is_digit_def is_letter_def)

lemma currencyCodeMatch_Cons: "\<not> is_letter c \<Longrightarrow> currencyCodeMatch (c # s) = currencyCodeMatch s"
  by (cases s) auto

lemma currencyCodeMatch_skip:
  "\<forall>c\<in>set p. \<not> is_letter c \<Longrightarrow> currencyCodeMatch (p @ s) = currencyCodeMatch s"
  by (induction p) (simp_all add: currencyCodeMatch_Cons)

lemma currencyCodeMatch_none: "\<forall>c\<in>set p. \<not> is_letter c \<Longrightarrow> currencyCodeMatch p = None"
  using currencyCodeMatch_skip [of p "[]"] by simp

subsection \<open>What parseFloat returns on digits and periods\<close>

lemma double_limit_pos: "0 < double_limit"
  by (simp add: double_limit_def)

lemma to_number_below: "0 \<le> q \<Longrightarrow> q < double_limit \<Longrightarrow> to_number q = Num q"
  using double_limit_pos by (simp add: to_number_def)

lemma to_number_above: "double_limit \<le> q \<Longrightarrow> to_number q = PInf"
  by (simp add: to_number_def)

lemma to_number_small: "- (2 ^ 64) < q \<Longrightarrow> q < 2 ^ 64 \<Longrightarrow> to_number q = Num q"
proof -
  assume q: "- (2 ^ 64) < q" "q < 2 ^ 64"
  have "(2::rat) ^ 64 \<le> double_limit"
    by (simp add: double_limit_def)
  with q show ?thesis
    by (simp add: to_number_def)
qed

lemma to_number_nonneg: "0 \<le> q \<Longrightarrow> nonneg_number (to_number q)"
  using double_limit_pos by (simp add: to_number_def)

lemma nonneg_number_iff: "nonneg_number x = ((\<exists>q. 0 \<le> q \<and> x = Num q) \<or> x = PInf)"
  by (cases x) auto

lemma pow10_pos: "0 < pow10 e"
  by (simp add: pow10_def)

lemma mantissa_nonneg: "0 \<le> (rat_of_nat a + rat_of_nat b / 10 ^ n) * pow10 e"
  by (intro mult_nonneg_nonneg add_nonneg_nonneg) (simp_all add: less_imp_le [OF pow10_pos])

lemma unsigned_literal_range: "unsigned_literal r = NaN \<or> nonneg_number (unsigned_literal r)"
  by (simp add: unsigned_literal_def Let_def to_number_nonneg [OF mantissa_nonneg])

lemma digits_dots_normalized: "digits_dots (normalizedString (cleanedString s))"
  by (induction s) (auto simp: digits_dots_def normalizedString_def cleanedString_def)

lemma parseFloat_digits_dots:
  assumes "digits_dots s"
  shows "parseFloat s = NaN \<or> nonneg_number (parseFloat s)"
proof (cases s)
  case Nil
  then show ?thesis by (simp add: parseFloat_def)
next
  case (Cons c r)
  with assms have c: "is_digit c \<or> c = CHR ''.''"
    by (simp add: digits_dots_def)
  then have nw: "\<not> is_white c" and ns: "c \<noteq> CHR ''-''" "c \<noteq> CHR ''+''"
    by (auto simp: is_digit_def is_white_def)
  from nw ns Cons have "parseFloat s = unsigned_literal s"
    by (simp add: parseFloat_def)
  with unsigned_literal_range [of s] show ?thesis by simp
qed

lemma or_zero_range: "x = NaN \<or> nonneg_number x \<Longrightarrow> nonneg_number (or_zero x)"
  by (cases x) (auto simp: or_zero_def)

lemma amount_parseCurrency_range: "nonneg_number (amount (parseCurrency s))"
proof (cases "s = []")
  case True
  then show ?thesis by (simp add: parseCurrency_def)
next
  case False
  then have "amount (parseCurrency s) = or_zero (parseFloat (normalizedString (cleanedString s)))"
    by (simp add: parseCurrency_def)
  with or_zero_range [OF parseFloat_digits_dots [OF digits_dots_normalized [of s]]]
  show ?thesis by simp
qed

subsection \<open>Cleaning and normalising a numeral\<close>

lemma or_zero_Num: "or_zero (Num q) = Num q"
  by (simp add: or_zero_def)

lemma or_zero_to_number: "0 \<le> q \<Longrightarrow> or_zero (to_number q) = to_number q"
  using double_limit_pos by (simp add: to_number_def or_zero_def)

lemma cleanedString_white: "list_all is_white s \<Longrightarrow> cleanedString s = []"
  by (induction s) (auto simp: cleanedString_def dest: white_not_kept)

lemma digit_not_sep: "is_digit c \<Longrightarrow> c \<noteq> CHR ''.'' \<and> c \<noteq> CHR '',''"
  by (auto simp: is_digit_def)

lemma cleanedString_letters: "list_all is_letter code \<Longrightarrow> cleanedString code = []"
  by (induction code) (auto simp: cleanedString_def dest: letter_not_kept)

lemma cleanedString_append: "cleanedString (a @ b) = cleanedString a @ cleanedString b"
  by (simp add: cleanedString_def)

lemma normalizedString_append: "normalizedString (a @ b) = normalizedString a @ normalizedString b"
  by (simp add: normalizedString_def)

lemma sep_not_letter: "\<not> is_letter (CHR ''.'')" "\<not> is_letter (CHR '','')" "\<not> is_letter (CHR '' '')"
  by (simp_all add: is_letter_def)

lemma space_not_kept: "\<not> is_digit (CHR '' '')"
  by (simp add: is_digit_def)

lemma parseFloat_digits_start:
  assumes "n \<noteq> []" "list_all is_digit n"
  shows "parseFloat (n @ r) = unsigned_literal (n @ r)" "\<not> starts_with ''Infinity'' (n @ r)"
proof -
  from assms obtain c m where n: "n = c # m" and c: "is_digit c"
    by (cases n) auto
  from c have "\<not> is_white c" "c \<noteq> CHR ''-''" "c \<noteq> CHR ''+''" "c \<noteq> CHR ''I''"
    by (auto simp: is_digit_def is_white_def)
  then show "parseFloat (n @ r) = unsigned_literal (n @ r)" "\<not> starts_with ''Infinity'' (n @ r)"
    by (simp_all add: n parseFloat_def)
qed

lemma takeWhile_digits: "list_all is_digit n \<Longrightarrow> takeWhile is_digit n = n"
  by (simp add: list_all_iff)

lemma dropWhile_digits: "list_all is_digit n \<Longrightarrow> dropWhile is_digit n = []"
  by (simp add: list_all_iff)

lemma not_digit_dot: "\<not> is_digit (CHR ''.'')"
  by (simp add: is_digit_def)

lemma parseFloat_integer:
  assumes "n \<noteq> []" "list_all is_digit n"
  shows "parseFloat n = to_number (of_nat (digits_val n))"
proof -
  have "unsigned_literal n = to_number (of_nat (digits_val n))"
    using assms parseFloat_digits_start(2) [OF assms, of "[]"]
    by (simp add: unsigned_literal_def takeWhile_digits dropWhile_digits digits_val_def
        parse_exponent_def pow10_def)
  with parseFloat_digits_start(1) [OF assms, of "[]"] show ?thesis by simp
qed

lemma parseFloat_decimal:
  assumes "n1 \<noteq> []" "list_all is_digit n1" "list_all is_digit n2"
  shows "parseFloat (n1 @ CHR ''.'' # n2) =
         to_number (of_nat (digits_val n1) + of_nat (digits_val n2) / 10 ^ length n2)"
proof -
  have t: "takeWhile is_digit (n1 @ CHR ''.'' # n2) = n1"
    using assms(2) by (simp add: list_all_iff takeWhile_tail not_digit_dot)
  have d: "dropWhile is_digit (n1 @ CHR ''.'' # n2) = CHR ''.'' # n2"
    using assms(2) by (simp add: list_all_iff dropWhile_append3 not_digit_dot)
  have "unsigned_literal (n1 @ CHR ''.'' # n2) =
        to_number (of_nat (digits_val n1) + of_nat (digits_val n2) / 10 ^ length n2)"
    using assms(1) parseFloat_digits_start(2) [OF assms(1,2), of "CHR ''.'' # n2"]
    by (simp add: unsigned_literal_def t d takeWhile_digits [OF assms(3)]
        dropWhile_digits [OF assms(3)] parse_exponent_def pow10_def)
  with parseFloat_digits_start(1) [OF assms(1,2), of "CHR ''.'' # n2"] show ?thesis by simp
qed

lemma currencyCodeMatch_code:
  assumes "list_all is_letter code" "length code = 2 \<or> length code = 3"
  shows "currencyCodeMatch code = Some code"
proof -
  from assms(2) consider a b where "code = [a, b]" | a b c where "code = [a, b, c]"
    by (auto simp: numeral_2_eq_2 numeral_3_eq_3 length_Suc_conv)
  then show ?thesis using assms(1) by cases simp_all
qed

lemma cleanedString_kept:
  "list_all (\<lambda>c. is_digit c \<or> c = CHR ''.'' \<or> c = CHR '','') s \<Longrightarrow> cleanedString s = s"
  by (induction s) (auto simp: cleanedString_def)

lemma cleanedString_space: "cleanedString '' '' = []"
  by (simp add: cleanedString_def space_not_kept)

lemma normalizedString_no_comma:
  "list_all (\<lambda>c. is_digit c \<or> c = CHR ''.'') s \<Longrightarrow> normalizedString s = filter is_digit s"
  by (induction s) (auto simp: normalizedString_def not_digit_dot dest: digit_not_sep)

lemma not_digit_comma: "\<not> is_digit (CHR '','')"
  by (simp add: is_digit_def)

lemma normalizedString_Cons_comma: "normalizedString (CHR '','' # s) = CHR ''.'' # normalizedString s"
  by (simp add: normalizedString_def)

lemma body_no_letters:
  "list_all (\<lambda>c. is_digit c \<or> c = CHR ''.'' \<or> c = CHR '','') body \<Longrightarrow>
   \<forall>c\<in>set (body @ '' ''). \<not> is_letter c"
proof (induction body)
  case Nil
  show ?case by (simp add: sep_not_letter(3))
next
  case (Cons c body)
  from Cons.prems have "is_digit c \<or> c = CHR ''.'' \<or> c = CHR '',''" by simp
  then have "\<not> is_letter c"
    by (elim disjE) (simp_all add: digit_not_letter sep_not_letter)
  with Cons show ?case by simp
qed

lemma list_all_filter_digit: "list_all is_digit (filter is_digit s)"
  by (simp add: list_all_iff)

lemma normalized_body:
  assumes body: "list_all (\<lambda>c. is_digit c \<or> c = CHR ''.'' \<or> c = CHR '','') body"
    and one: "length (filter (\<lambda>c. c = CHR '','') body) \<le> 1"
  shows "normalizedString body =
           filter is_digit (takeWhile (\<lambda>c. c \<noteq> CHR '','') body) @
           (case dropWhile (\<lambda>c. c \<noteq> CHR '','') body of
              [] \<Rightarrow> []
            | c # rest \<Rightarrow> CHR ''.'' # filter is_digit rest)"
proof -
  let ?pre = "takeWhile (\<lambda>c. c \<noteq> CHR '','') body"
  let ?post = "dropWhile (\<lambda>c. c \<noteq> CHR '','') body"
  have split: "body = ?pre @ ?post" by simp
  have pre: "list_all (\<lambda>c. is_digit c \<or> c = CHR ''.'') ?pre"
    using body unfolding list_all_iff by (auto dest: set_takeWhileD)
  have npre: "normalizedString ?pre = filter is_digit ?pre"
    by (rule normalizedString_no_comma [OF pre])
  have npost: "normalizedString ?post =
        (case ?post of [] \<Rightarrow> [] | c # rest \<Rightarrow> CHR ''.'' # filter is_digit rest)"
  proof (cases ?post)
    case Nil
    show ?thesis unfolding Nil by (simp add: normalizedString_def)
  next
    case (Cons c rest)
    then have c: "c = CHR '',''"
      using hd_dropWhile [of "\<lambda>c. c \<noteq> CHR '',''" body] by auto
    have "filter (\<lambda>c. c = CHR '','') body = filter (\<lambda>c. c = CHR '','') ?pre @ filter (\<lambda>c. c = CHR '','') ?post"
      by (subst split) (simp only: filter_append)
    with one Cons c have "filter (\<lambda>c. c = CHR '','') rest = []"
      by simp
    then have nc: "\<forall>x\<in>set rest. x \<noteq> CHR '',''"
      by (auto simp: filter_empty_conv)
    have "set rest \<subseteq> set body"
      using Cons set_dropWhileD [of _ "\<lambda>c. c \<noteq> CHR '',''" body] by auto
    with body nc have "list_all (\<lambda>c. is_digit c \<or> c = CHR ''.'') rest"
      unfolding list_all_iff by auto
    then have "normalizedString rest = filter is_digit rest"
      by (rule normalizedString_no_comma)
    then show ?thesis
      unfolding Cons c by (simp add: normalizedString_Cons_comma)
  qed
  have "normalizedString body = normalizedString ?pre @ normalizedString ?post"
    by (subst split) (simp only: normalizedString_append)
  with npre npost show ?thesis by simp
qed

lemma whole_part_nonempty:
  assumes "body \<noteq> []" "is_digit (hd body)"
  shows "filter is_digit (takeWhile (\<lambda>c. c \<noteq> CHR '','') body) \<noteq> []"
proof -
  from assms obtain c r where "body = c # r" "is_digit c" by (cases body) auto
  then show ?thesis by (auto dest: digit_not_sep)
qed

lemma parseFloat_body:
  assumes "body \<noteq> []" "is_digit (hd body)"
    and body: "list_all (\<lambda>c. is_digit c \<or> c = CHR ''.'' \<or> c = CHR '','') body"
    and one: "length (filter (\<lambda>c. c = CHR '','') body) \<le> 1"
  shows "parseFloat (normalizedString body) = to_number (intended_amount body)"
proof -
  let ?w = "filter is_digit (takeWhile (\<lambda>c. c \<noteq> CHR '','') body)"
  have w: "?w \<noteq> []" "list_all is_digit ?w"
    by (rule whole_part_nonempty [OF assms(1,2)]) (rule list_all_filter_digit)
  show ?thesis
  proof (cases "dropWhile (\<lambda>c. c \<noteq> CHR '','') body")
    case Nil
    have n: "normalizedString body = ?w"
      unfolding normalized_body [OF body one] Nil by simp
    have i: "intended_amount body = of_nat (digits_val ?w)"
      unfolding intended_amount_def Nil by (simp add: digits_val_def)
    show ?thesis
      unfolding n i by (rule parseFloat_integer [OF w])
  next
    case (Cons c rest)
    then have c: "c = CHR '',''"
      using hd_dropWhile [of "\<lambda>c. c \<noteq> CHR '',''" body] by auto
    have n: "normalizedString body = ?w @ CHR ''.'' # filter is_digit rest"
      unfolding normalized_body [OF body one] Cons by simp
    have i: "intended_amount body =
               of_nat (digits_val ?w) +
               of_nat (digits_val (filter is_digit rest)) / 10 ^ length (filter is_digit rest)"
      unfolding intended_amount_def Cons c by (simp add: not_digit_comma Let_def)
    show ?thesis
      unfolding n i by (rule parseFloat_decimal [OF w list_all_filter_digit])
  qed
qed

lemma intended_amount_nonneg: "0 \<le> intended_amount body"
  by (simp add: intended_amount_def Let_def)

lemma parseCurrency_shape:
  assumes "cost_shape body code" "commas body \<le> 1"
  shows "parseCurrency (body @ '' '' @ code) =
         \<lparr>amount = to_number (intended_amount body), currencyCode = toUpperCase code\<rparr>"
proof -
  from assms have b: "body \<noteq> []" "is_digit (hd body)"
    and body: "list_all (\<lambda>c. is_digit c \<or> c = CHR ''.'' \<or> c = CHR '','') body"
    and one: "length (filter (\<lambda>c. c = CHR '','') body) \<le> 1"
    and cd: "list_all is_letter code" "length code = 2 \<or> length code = 3"
    by (simp_all add: cost_shape_def commas_def)
  have ne: "body @ '' '' @ code \<noteq> []"
    using b(1) by simp
  have code: "currencyCodeMatch (body @ '' '' @ code) = Some code"
    using currencyCodeMatch_skip [OF body_no_letters [OF body], of code]
      currencyCodeMatch_code [OF cd] by simp
  have cl: "cleanedString (body @ '' '' @ code) = body"
    by (simp only: cleanedString_append cleanedString_kept [OF body] cleanedString_space
        cleanedString_letters [OF cd(1)] append_Nil2)
  show ?thesis
    unfolding parseCurrency_def code cl parseFloat_body [OF b body one]
      or_zero_to_number [OF intended_amount_nonneg]
    using ne by simp
qed

subsection \<open>The loops of calculateSummary as sums\<close>

lemma counted_costs_append: "counted_costs (xs @ ys) = counted_costs xs @ counted_costs ys"
  by (simp add: counted_costs_def)

lemma counted_costs_Cons:
  "counted_costs (a # rest) =
     (case actualCost a of None \<Rightarrow> [] | Some c \<Rightarrow> if isNaN c then [] else [c]) @ counted_costs rest"
  by (simp add: counted_costs_def)

lemma activity_loop_sums:
  "activity_loop acts (e, a) =
     (foldl num_add e (map (\<lambda>x. amount (parseCurrency (cost x))) acts),
      foldl num_add a (counted_costs acts))"
proof (induction acts arbitrary: e a)
  case Nil
  show ?case by (simp add: counted_costs_def)
next
  case (Cons x acts)
  show ?case
    by (simp add: Cons.IH counted_costs_Cons split: option.split)
qed

lemma day_loop_sums:
  "day_loop days (e, a) =
     (foldl num_add e (map (\<lambda>x. amount (parseCurrency (cost x))) (concat (map activities days))),
      foldl num_add a (counted_costs (concat (map activities days))))"
proof (induction days arbitrary: e a)
  case Nil
  show ?case by (simp add: counted_costs_def)
next
  case (Cons d days)
  show ?case
    by (simp add: activity_loop_sums Cons.IH counted_costs_append)
qed

lemma totals_of_itinerary:
  "(case it of None \<Rightarrow> (Num 0, Num 0) | Some days \<Rightarrow> day_loop days (Num 0, Num 0)) =
     (num_sum (map (\<lambda>x. amount (parseCurrency (cost x))) (all_activities it)),
      num_sum (counted_costs (all_activities it)))"
  by (cases it) (simp_all add: num_sum_def all_activities_def counted_costs_def day_loop_sums)

lemma calculateSummary_estimated:
  "totalEstimatedCost (calculateSummary s) =
     num_sum (map (\<lambda>x. amount (parseCurrency (cost x))) (all_activities (itinerary s)))"
  by (simp add: calculateSummary_def Let_def totals_of_itinerary split: option.split)

lemma calculateSummary_actual:
  "totalActualCost (calculateSummary s) = num_sum (counted_costs (all_activities (itinerary s)))"
  by (simp add: calculateSummary_def Let_def totals_of_itinerary split: option.split)

lemma calculateSummary_average:
  "averageDailyBudgetRemaining (calculateSummary s) =
     (case totalBudget s of
        None \<Rightarrow> None
      | Some b \<Rightarrow>
          (case duration s of
             None \<Rightarrow> None
           | Some d \<Rightarrow>
               if num_gt d (Num 0)
               then Some (num_div (num_sub b (num_sum (counted_costs (all_activities (itinerary s))))) d)
               else None))"
  by (simp add: calculateSummary_def Let_def totals_of_itinerary split: option.split)

lemma calculateSummary_inputs:
  "itinerary (calculateSummary s) = itinerary s"
  "totalBudget (calculateSummary s) = totalBudget s"
  "duration (calculateSummary s) = duration s"
  "destination (calculateSummary s) = destination s"
  "isLoading (calculateSummary s) = isLoading s"
  "error (calculateSummary s) = error s"
  by (simp_all add: calculateSummary_def Let_def split: option.split)

lemma gt_zero_iff: "num_gt d (Num 0) = (\<not> num_le d (Num 0) \<and> \<not> isNaN d)"
  by (cases d) auto

lemma calculateSummary_eq:
  "calculateSummary s =
     s\<lparr>totalEstimatedCost :=
         num_sum (map (\<lambda>x. amount (parseCurrency (cost x))) (all_activities (itinerary s))),
       totalActualCost := num_sum (counted_costs (all_activities (itinerary s))),
       averageDailyBudgetRemaining :=
         (case totalBudget s of
            None \<Rightarrow> None
          | Some b \<Rightarrow>
              (case duration s of
                 None \<Rightarrow> None
               | Some d \<Rightarrow>
                   if num_gt d (Num 0)
                   then Some (num_div (num_sub b (num_sum (counted_costs (all_activities (itinerary s))))) d)
                   else None))\<rparr>"
  by (simp add: calculateSummary_def Let_def totals_of_itinerary split: option.split)

lemma num_add_nonneg: "nonneg_number x \<Longrightarrow> nonneg_number y \<Longrightarrow> nonneg_number (num_add x y)"
  by (cases x; cases y) (simp_all add: to_number_nonneg)

lemma num_sum_nonneg:
  assumes "\<forall>x\<in>set xs. nonneg_number x"
  shows "nonneg_number (num_sum xs)"
proof -
  have "nonneg_number (foldl num_add a xs)" if "nonneg_number a" for a
    using assms that by (induction xs arbitrary: a) (simp_all add: num_add_nonneg)
  from this [of "Num 0"] show ?thesis by (simp add: num_sum_def)
qed

subsection \<open>The two branches of generateItinerary\<close>

lemma truthy_iff: "truthy d = (d \<noteq> Num 0 \<and> \<not> isNaN d)"
  by (cases d) auto

lemma buildPrompt_startGeneration: "buildPrompt e (startGeneration s) = buildPrompt e s"
  by (simp add: buildPrompt_def startGeneration_def)

lemma generateItinerary_rejected:
  assumes "destination s = [] \<or> duration s = None \<or> duration s = Some (Num 0) \<or> duration s = Some NaN"
  shows "generateItinerary e s =
         \<lparr>awaiting = None, settled = s\<lparr>error := Some validation_message\<rparr>, calls = [],
          rejected = False\<rparr>"
  using assms by (auto simp: generateItinerary_def)

text \<open>What the \<open>try\<close> block of a run throws, if anything.\<close>

lemma generateItinerary_thrown:
  assumes "destination s \<noteq> []" "duration s = Some d" "d \<noteq> Num 0" "\<not> isNaN d"
    and "generateContent e (buildPrompt e s) = Inl err \<or>
         generateContent e (buildPrompt e s) = Inr resp \<and>
         JSON_parse e (trim (response_text resp)) = Inl err"
  shows "generateItinerary e s =
         (case catchError err (startGeneration s) of
            Some s3 \<Rightarrow>
              \<lparr>awaiting = Some (startGeneration s), settled = s3\<lparr>isLoading := False\<rparr>,
               calls = [buildPrompt e s], rejected = False\<rparr>
          | None \<Rightarrow>
              \<lparr>awaiting = Some (startGeneration s),
               settled = (startGeneration s)\<lparr>isLoading := False\<rparr>,
               calls = [buildPrompt e s], rejected = True\<rparr>)"
  using assms
  by (auto simp: generateItinerary_def truthy_iff Let_def buildPrompt_startGeneration
      split: option.split)

lemma generateItinerary_parsed:
  assumes "destination s \<noteq> []" "duration s = Some d" "d \<noteq> Num 0" "\<not> isNaN d"
    and "generateContent e (buildPrompt e s) = Inr resp"
    and "JSON_parse e (trim (response_text resp)) = Inr parsed"
  shows "generateItinerary e s =
         \<lparr>awaiting = Some (startGeneration s),
          settled =
            (calculateSummary ((startGeneration s)\<lparr>itinerary := Some (initializeItinerary parsed)\<rparr>))
            \<lparr>isLoading := False\<rparr>,
          calls = [buildPrompt e s], rejected = False\<rparr>"
  using assms
  by (simp add: generateItinerary_def truthy_iff Let_def buildPrompt_startGeneration)

lemma generateItinerary_started:
  assumes "destination s \<noteq> []" "duration s = Some d" "d \<noteq> Num 0" "\<not> isNaN d"
  shows "awaiting (generateItinerary e s) = Some (startGeneration s)"
    and "calls (generateItinerary e s) = [buildPrompt e s]"
  using assms
  by (simp_all add: generateItinerary_def truthy_iff Let_def buildPrompt_startGeneration
      split: sum.split option.split)

text \<open>\<open>includes\<close> finds a text exactly when the text stands somewhere in the string.\<close>

lemma starts_with_iff: "starts_with t s = (\<exists>q. s = t @ q)"
  by (induction t s rule: starts_with.induct) auto

lemma str_includes_iff: "str_includes s t = (\<exists>p q. s = p @ t @ q)"
proof (induction s)
  case Nil
  show ?case by auto
next
  case (Cons c s)
  show ?case
  proof
    assume "str_includes (c # s) t"
    then consider "starts_with t (c # s)" | "str_includes s t" by auto
    then show "\<exists>p q. c # s = p @ t @ q"
    proof cases
      case 1
      then obtain q where "c # s = t @ q" by (auto simp: starts_with_iff)
      then have "c # s = [] @ t @ q" by simp
      then show ?thesis by blast
    next
      case 2
      with Cons.IH obtain p q where "s = p @ t @ q" by auto
      then have "c # s = (c # p) @ t @ q" by simp
      then show ?thesis by blast
    qed
  next
    assume "\<exists>p q. c # s = p @ t @ q"
    then obtain p q where pq: "c # s = p @ t @ q" by auto
    show "str_includes (c # s) t"
    proof (cases p)
      case Nil
      with pq have "starts_with t (c # s)" by (auto simp: starts_with_iff)
      then show ?thesis by simp
    next
      case (Cons a p')
      with pq have "s = p' @ t @ q" by simp
      with Cons.IH have "str_includes s t" by auto
      then show ?thesis by simp
    qed
  qed
qed

lemma catchError_json:
  "catchError (SyntaxError (p @ ''JSON'' @ q)) s = Some (s\<lparr>error := Some malformed_message\<rparr>)"
proof -
  have "str_includes (p @ ''JSON'' @ q) ''JSON''"
    unfolding str_includes_iff by blast
  then show ?thesis by (simp add: catchError_def)
qed

lemma catchError_other:
  "catchError (OtherError m) s = Some (s\<lparr>error := Some (generic_message m)\<rparr>)"
  "\<forall>p q. m \<noteq> p @ ''JSON'' @ q \<Longrightarrow>
     catchError (SyntaxError m) s = Some (s\<lparr>error := Some (generic_message m)\<rparr>)"
  "catchError Nullish s = None"
  by (simp_all add: catchError_def str_includes_iff)

lemma initializeItinerary_actualCost:
  "\<forall>dayPlan\<in>set (initializeItinerary parsed). \<forall>a\<in>set (activities dayPlan). actualCost a = None"
  by (auto simp: initializeItinerary_def)

lemma generateItinerary_totalBudget:
  "totalBudget (settled (generateItinerary e t)) = totalBudget t"
  by (simp add: generateItinerary_def Let_def catchError_def startGeneration_def
      calculateSummary_inputs split: sum.split option.split js_error.split)

subsection \<open>The sample itinerary, evaluated\<close>

lemma small_numbers:
  "to_number 20 = Num 20" "to_number 80 = Num 80" "to_number 100 = Num 100"
  "to_number 500 = Num 500" "to_number (3001 / 2) = Num (3001 / 2)"
  "to_number (4001 / 2) = Num (4001 / 2)" "to_number (100 / 3) = Num (100 / 3)"
  by (simp_all add: to_number_small)

lemma sample_cost_1: "parseCurrency ''500 JPY'' = \<lparr>amount = Num 500, currencyCode = ''JPY''\<rparr>"
  using parseCurrency_shape [of "''500''" "''JPY''"]
  by (simp add: cost_shape_def commas_def is_digit_def is_letter_def intended_amount_def
      digits_val_def digit_val_def toUpperCase_def upper_char_def small_numbers)

lemma sample_cost_2:
  "parseCurrency ''1.500,50 JPY'' = \<lparr>amount = Num (3001 / 2), currencyCode = ''JPY''\<rparr>"
  using parseCurrency_shape [of "''1.500,50''" "''JPY''"]
  by (simp add: cost_shape_def commas_def is_digit_def is_letter_def intended_amount_def
      digits_val_def digit_val_def toUpperCase_def upper_char_def small_numbers)

lemma sample_cost_3: "parseCurrency ''100 IDR'' = \<lparr>amount = Num 100, currencyCode = ''IDR''\<rparr>"
  using parseCurrency_shape [of "''100''" "''IDR''"]
  by (simp add: cost_shape_def commas_def is_digit_def is_letter_def intended_amount_def
      digits_val_def digit_val_def toUpperCase_def upper_char_def small_numbers)

lemma sample_activities:
  "all_activities (itinerary budget_state) = activities sample_day"
  by (simp add: budget_state_def all_activities_def)

lemma sample_estimated:
  "num_sum (map (\<lambda>a. amount (parseCurrency (cost a))) (activities sample_day)) = Num (4001 / 2)"
  by (simp add: sample_day_def num_sum_def sample_cost_1 sample_cost_2 small_numbers)

lemma sample_actual: "num_sum (counted_costs (activities sample_day)) = Num 20"
  by (simp add: sample_day_def num_sum_def counted_costs_def small_numbers)

text \<open>A numeral of 400 nines is beyond the range of the doubles.\<close>

lemma digits_val_append_digit: "digits_val (ds @ [c]) = 10 * digits_val ds + digit_val c"
  by (simp add: digits_val_def)

lemma digits_val_nines: "Suc (digits_val (replicate n (CHR ''9''))) = 10 ^ n"
proof (induction n)
  case 0
  show ?case by (simp add: digits_val_def)
next
  case (Suc n)
  have "replicate (Suc n) (CHR ''9'') = replicate n (CHR ''9'') @ [CHR ''9'']"
    by (simp add: replicate_append_same)
  then have "digits_val (replicate (Suc n) (CHR ''9'')) = 10 * digits_val (replicate n (CHR ''9'')) + 9"
    by (simp only: digits_val_append_digit) (simp add: digit_val_def)
  with Suc show ?case by simp
qed

lemma nines_shape: "cost_shape (replicate 400 (CHR ''9'')) ''IDR''" "commas (replicate 400 (CHR ''9'')) = 0"
  by (simp_all add: cost_shape_def commas_def list_all_iff is_digit_def is_letter_def)

lemma nines_intended: "intended_amount (replicate 400 (CHR ''9'')) = 10 ^ 400 - 1"
proof -
  have t: "takeWhile (\<lambda>c. c \<noteq> CHR '','') (replicate 400 (CHR ''9'')) = replicate 400 (CHR ''9'')"
    and d: "dropWhile (\<lambda>c. c \<noteq> CHR '','') (replicate 400 (CHR ''9'')) = []"
    by simp_all
  have f: "filter is_digit (replicate 400 (CHR ''9'')) = replicate 400 (CHR ''9'')"
    by (simp add: is_digit_def)
  have "rat_of_nat (Suc (digits_val (replicate 400 (CHR ''9'')))) = 10 ^ 400"
    by (simp only: digits_val_nines) simp
  then have "rat_of_nat (digits_val (replicate 400 (CHR ''9''))) = 10 ^ 400 - 1"
    by simp
  then show ?thesis
    unfolding intended_amount_def t d f by (simp add: digits_val_def)
qed

lemma nines_overflow: "double_limit \<le> 10 ^ 400 - 1"
proof -
  have "(2::rat) ^ 1024 \<le> 10 ^ 400 - 1"
    by simp
  moreover have "double_limit \<le> 2 ^ 1024"
    by (simp add: double_limit_def)
  ultimately show ?thesis by simp
qed

subsection \<open>The currency parser\<close>

text \<open>
  Claim C9. For every input string the amount that \<open>parseCurrency\<close> returns is a
  number that is not negative and not NaN, a finite one or, for a numeral beyond the range
  of the doubles, \<open>Infinity\<close>: signs are stripped before \<open>parseFloat\<close> sees the text, and
  a failed parse is replaced by 0. So the estimated total, a sum of such amounts, is never
  negative or NaN either.
\<close>

theorem parsed_amount_nonneg:
  "((\<exists>q. 0 \<le> q \<and> amount (parseCurrency s) = Num q) \<or> amount (parseCurrency s) = PInf) \<and>
   ((\<exists>q. 0 \<le> q \<and> totalEstimatedCost (calculateSummary st) = Num q) \<or>
    totalEstimatedCost (calculateSummary st) = PInf)"
proof
  show "(\<exists>q. 0 \<le> q \<and> amount (parseCurrency s) = Num q) \<or> amount (parseCurrency s) = PInf"
    using amount_parseCurrency_range [of s] by (simp only: nonneg_number_iff)
  have "nonneg_number (totalEstimatedCost (calculateSummary st))"
    unfolding calculateSummary_estimated
    by (rule num_sum_nonneg) (simp add: amount_parseCurrency_range)
  then show "(\<exists>q. 0 \<le> q \<and> totalEstimatedCost (calculateSummary st) = Num q) \<or>
    totalEstimatedCost (calculateSummary st) = PInf"
    by (simp only: nonneg_number_iff)
qed

text \<open>
  The theorem at the cost string \<open>-12,5 USD\<close> and at the sample itinerary.
\<close>

theorem parsed_amount_nonneg_witness:
  "((\<exists>q. 0 \<le> q \<and> amount (parseCurrency ''-12,5 USD'') = Num q) \<or>
    amount (parseCurrency ''-12,5 USD'') = PInf) \<and>
   ((\<exists>q. 0 \<le> q \<and> totalEstimatedCost (calculateSummary budget_state) = Num q) \<or>
    totalEstimatedCost (calculateSummary budget_state) = PInf)"
  by (rule parsed_amount_nonneg)

text \<open>
  Claim C7. For an input that is empty or consists of white space only,
  \<open>parseCurrency\<close> returns the amount 0 and the default currency code \<open>IDR\<close>.
\<close>

theorem whitespace_cost:
  assumes "list_all is_white s"
  shows "parseCurrency s = \<lparr>amount = Num 0, currencyCode = ''IDR''\<rparr>"
proof (cases "s = []")
  case True
  then show ?thesis by (simp add: parseCurrency_def)
next
  case False
  from assms have "currencyCodeMatch s = None"
    by (intro currencyCodeMatch_none) (auto simp: list_all_iff dest: white_not_letter)
  moreover have "or_zero (parseFloat (normalizedString (cleanedString s))) = Num 0"
    by (simp add: cleanedString_white [OF assms] normalizedString_def parseFloat_def or_zero_def)
  ultimately show ?thesis using False by (simp add: parseCurrency_def)
qed

text \<open>
  The theorem at a string of two spaces around a tab, and at the empty string.
\<close>

theorem whitespace_cost_witness:
  "list_all is_white [CHR '' '', CHR 0x09, CHR '' ''] \<and>
   parseCurrency [CHR '' '', CHR 0x09, CHR '' ''] = \<lparr>amount = Num 0, currencyCode = ''IDR''\<rparr> \<and>
   parseCurrency [] = \<lparr>amount = Num 0, currencyCode = ''IDR''\<rparr>"
  using whitespace_cost [of "[CHR '' '', CHR 0x09, CHR '' '']"] whitespace_cost [of "[]"]
  by (simp add: is_white_def)

text \<open>
  Claim C2, amended. For every cost string of the shape, a numeral of digits, periods and
  commas followed by a space and a currency code, whose numeral holds at most one comma,
  \<open>parseCurrency\<close> returns the code in upper case and, when the value of the numeral lies
  below \<open>2^1024 - 2^970\<close>, that value as the amount: the value the numeral has when periods
  group thousands and the comma is the decimal separator (the exact decimal value, which
  the double rounds to the nearest representable number). From that bound on the amount
  is \<open>Infinity\<close>.
\<close>

theorem cost_string_parsed:
  assumes "cost_shape body code" "commas body \<le> 1"
  shows "currencyCode (parseCurrency (body @ '' '' @ code)) = toUpperCase code \<and>
         (intended_amount body < double_limit \<longrightarrow>
            amount (parseCurrency (body @ '' '' @ code)) = Num (intended_amount body)) \<and>
         (double_limit \<le> intended_amount body \<longrightarrow>
            amount (parseCurrency (body @ '' '' @ code)) = PInf)"
  unfolding parseCurrency_shape [OF assms]
  by (simp add: to_number_above to_number_below [OF intended_amount_nonneg])

text \<open>
  The theorem at \<open>1.500,50 jpy\<close>.
\<close>

theorem cost_string_parsed_witness:
  "cost_shape ''1.500,50'' ''jpy'' \<and> commas ''1.500,50'' \<le> 1 \<and>
   intended_amount ''1.500,50'' = 3001 / 2 \<and> 3001 / 2 < double_limit \<and>
   currencyCode (parseCurrency ''1.500,50 jpy'') = ''JPY'' \<and>
   amount (parseCurrency ''1.500,50 jpy'') = Num (3001 / 2)"
proof -
  have s: "cost_shape ''1.500,50'' ''jpy''" "commas ''1.500,50'' \<le> 1"
    by (simp_all add: cost_shape_def commas_def is_digit_def is_letter_def)
  have i: "intended_amount ''1.500,50'' = 3001 / 2"
    by (simp add: intended_amount_def is_digit_def digits_val_def digit_val_def)
  have l: "(3001 / 2 :: rat) < double_limit"
    by (simp add: double_limit_def)
  from cost_string_parsed [OF s] i l
  have "currencyCode (parseCurrency ''1.500,50 jpy'') = toUpperCase ''jpy'' \<and>
        amount (parseCurrency ''1.500,50 jpy'') = Num (3001 / 2)"
    by simp
  with s i l show ?thesis
    by (simp add: toUpperCase_def upper_char_def)
qed

text \<open>
  Claim C2 as stated fails in two places. Of a numeral with two commas \<open>parseFloat\<close> reads
  the part up to the second decimal point only, so the digits after it are lost: \<open>1,,5\<close>
  gives 1, not 1.5. And a numeral of 400 nines, with no separator at all, is beyond the
  range of the doubles: the amount is \<open>Infinity\<close>, within no tolerance of its value.
\<close>

theorem cost_string_counterexample:
  "cost_shape ''1,,5'' ''IDR'' \<and> intended_amount ''1,,5'' = 3 / 2 \<and>
   amount (parseCurrency ''1,,5 IDR'') = Num 1 \<and>
   cost_shape (replicate 400 (CHR ''9'')) ''IDR'' \<and> commas (replicate 400 (CHR ''9'')) = 0 \<and>
   intended_amount (replicate 400 (CHR ''9'')) = 10 ^ 400 - 1 \<and>
   amount (parseCurrency (replicate 400 (CHR ''9'') @ '' IDR'')) = PInf"
proof -
  have s: "cost_shape ''1,,5'' ''IDR''"
    by (simp add: cost_shape_def is_digit_def is_letter_def)
  have i: "intended_amount ''1,,5'' = 3 / 2"
    by (simp add: intended_amount_def is_digit_def digits_val_def digit_val_def)
  have c: "cleanedString ''1,,5 IDR'' = ''1,,5''"
    by (simp add: cleanedString_def is_digit_def)
  have n: "normalizedString ''1,,5'' = ''1..5''"
    by (simp add: normalizedString_def)
  have p: "parseFloat ''1..5'' = to_number 1"
    by (simp add: parseFloat_def is_white_def unsigned_literal_def is_digit_def digits_val_def
        digit_val_def parse_exponent_def pow10_def)
  have o: "to_number 1 = Num 1"
    by (simp add: to_number_small)
  have a: "amount (parseCurrency ''1,,5 IDR'') = Num 1"
    by (simp add: parseCurrency_def c n p o or_zero_Num)
  have c1: "commas (replicate 400 (CHR ''9'')) \<le> 1"
    by (simp only: nines_shape(2))
  have e: "replicate 400 (CHR ''9'') @ '' IDR'' = replicate 400 (CHR ''9'') @ '' '' @ ''IDR''"
    by simp
  have b: "amount (parseCurrency (replicate 400 (CHR ''9'') @ '' IDR'')) = PInf"
    unfolding e
    by (simp only: parseCurrency_shape [OF nines_shape(1) c1] nines_intended
        parsedCurrency.select_convs to_number_above [OF nines_overflow])
  from s i a b nines_shape nines_intended show ?thesis by simp
qed

subsection \<open>The budget aggregator\<close>

text \<open>
  Claim C3. For every itinerary, the absent and the empty one included, after
  \<open>calculateSummary\<close> the estimated total is the sum of the parsed amounts of the cost
  strings of all activities of all days, and the actual total is the sum of the actual
  costs that are neither null nor NaN; both are 0 for the absent and for the empty
  itinerary.
\<close>

theorem totals_are_sums:
  "totalEstimatedCost (calculateSummary s) =
     num_sum (map (\<lambda>a. amount (parseCurrency (cost a))) (all_activities (itinerary s))) \<and>
   totalActualCost (calculateSummary s) = num_sum (counted_costs (all_activities (itinerary s))) \<and>
   (itinerary s = None \<or> itinerary s = Some [] \<longrightarrow>
      totalEstimatedCost (calculateSummary s) = Num 0 \<and>
      totalActualCost (calculateSummary s) = Num 0)"
  by (auto simp: calculateSummary_estimated calculateSummary_actual all_activities_def
      num_sum_def counted_costs_def)

text \<open>
  The theorem at the sample itinerary, one of whose actual costs is NaN, and at the
  initial state, which has no itinerary.
\<close>

theorem totals_are_sums_witness:
  "totalEstimatedCost (calculateSummary budget_state) = Num (4001 / 2) \<and>
   totalActualCost (calculateSummary budget_state) = Num 20 \<and>
   itinerary initial_state = None \<and>
   totalEstimatedCost (calculateSummary initial_state) = Num 0 \<and>
   totalActualCost (calculateSummary initial_state) = Num 0"
proof -
  have i: "itinerary initial_state = None"
    by (simp add: initial_state_def)
  from conjunct2 [OF conjunct2 [OF totals_are_sums [of initial_state]]] i
  have z: "totalEstimatedCost (calculateSummary initial_state) = Num 0 \<and>
           totalActualCost (calculateSummary initial_state) = Num 0"
    by simp
  from totals_are_sums [of budget_state]
  have b: "totalEstimatedCost (calculateSummary budget_state) = Num (4001 / 2) \<and>
           totalActualCost (calculateSummary budget_state) = Num 20"
    by (simp add: sample_activities sample_estimated sample_actual)
  from i z b show ?thesis by simp
qed

text \<open>
  Claim C1. For a duration that is a number (the form holds a number of days or nothing),
  the average remaining per day is null whenever the total budget is null, or the duration
  is null, or the duration \<open>d\<close> is \<open><= 0\<close>; otherwise it is \<open>(b - totalActual) / d\<close>, with
  the actual total of the aggregator.
\<close>

theorem average_remaining_per_day:
  assumes "duration s \<noteq> Some NaN"
  shows
    "(totalBudget s = None \<or> duration s = None \<or> (\<exists>d. duration s = Some d \<and> num_le d (Num 0))
        \<longrightarrow> averageDailyBudgetRemaining (calculateSummary s) = None) \<and>
     (\<not> (totalBudget s = None \<or> duration s = None \<or> (\<exists>d. duration s = Some d \<and> num_le d (Num 0)))
        \<longrightarrow> (\<exists>b d. totalBudget s = Some b \<and> duration s = Some d \<and>
               averageDailyBudgetRemaining (calculateSummary s) =
                 Some (num_div (num_sub b (totalActualCost (calculateSummary s))) d)))"
proof -
  have "isNaN d \<longleftrightarrow> d = NaN" for d
    by (cases d) simp_all
  with assms show ?thesis
    by (auto simp: calculateSummary_average calculateSummary_actual gt_zero_iff
        split: option.splits)
qed

text \<open>
  The theorem at a budget of 100 for four days with 20 spent, and for zero days.
\<close>

theorem average_remaining_per_day_witness:
  "duration budget_state \<noteq> Some NaN \<and>
   totalBudget budget_state = Some (Num 100) \<and> duration budget_state = Some (Num 4) \<and>
   \<not> num_le (Num 4) (Num 0) \<and>
   averageDailyBudgetRemaining (calculateSummary budget_state) = Some (Num 20) \<and>
   num_le (Num 0) (Num 0) \<and>
   averageDailyBudgetRemaining (calculateSummary (budget_state\<lparr>duration := Some (Num 0)\<rparr>)) = None"
proof -
  have i: "totalBudget budget_state = Some (Num 100)" "duration budget_state = Some (Num 4)"
    by (simp_all add: budget_state_def)
  from average_remaining_per_day [of budget_state] i
  have "averageDailyBudgetRemaining (calculateSummary budget_state) =
          Some (num_div (num_sub (Num 100) (totalActualCost (calculateSummary budget_state))) (Num 4))"
    by simp
  then have a: "averageDailyBudgetRemaining (calculateSummary budget_state) = Some (Num 20)"
    by (simp add: calculateSummary_actual sample_activities sample_actual num_sub_def small_numbers)
  from average_remaining_per_day [of "budget_state\<lparr>duration := Some (Num 0)\<rparr>"]
  have z: "averageDailyBudgetRemaining (calculateSummary (budget_state\<lparr>duration := Some (Num 0)\<rparr>)) = None"
    by simp
  from i a z show ?thesis by simp
qed

text \<open>
  Claim C8. \<open>calculateSummary\<close> is a function of the itinerary, the total budget and the
  duration alone: run a second time it changes nothing, and two states that agree on
  these three inputs get the same three figures.
\<close>

theorem calculateSummary_pure:
  "calculateSummary (calculateSummary s) = calculateSummary s \<and>
   (itinerary s = itinerary t \<and> totalBudget s = totalBudget t \<and> duration s = duration t
      \<longrightarrow> summary (calculateSummary s) = summary (calculateSummary t))"
  by (simp add: calculateSummary_eq summary_def cong: option.case_cong if_cong)

text \<open>
  The theorem at the sample state and at a copy of it that differs in the error message
  and in a stale estimated total.
\<close>

theorem calculateSummary_pure_witness:
  "calculateSummary (calculateSummary budget_state) = calculateSummary budget_state \<and>
   summary (calculateSummary budget_state) =
     summary (calculateSummary (budget_state\<lparr>error := Some ''x'', totalEstimatedCost := Num 7\<rparr>)) \<and>
   summary (calculateSummary budget_state) = (Num (4001 / 2), Num 20, Some (Num 20))"
proof -
  from calculateSummary_pure [of budget_state "budget_state\<lparr>error := Some ''x'', totalEstimatedCost := Num 7\<rparr>"]
  have a: "calculateSummary (calculateSummary budget_state) = calculateSummary budget_state \<and>
     summary (calculateSummary budget_state) =
     summary (calculateSummary (budget_state\<lparr>error := Some ''x'', totalEstimatedCost := Num 7\<rparr>))"
    by simp
  have i: "totalBudget budget_state = Some (Num 100)" "duration budget_state = Some (Num 4)"
    by (simp_all add: budget_state_def)
  have b: "summary (calculateSummary budget_state) = (Num (4001 / 2), Num 20, Some (Num 20))"
    by (simp add: summary_def calculateSummary_estimated calculateSummary_actual
        calculateSummary_average sample_activities sample_estimated sample_actual num_sub_def i
        small_numbers)
  from a b show ?thesis by simp
qed

text \<open>
  Claim C10, amended. After \<open>onTotalBudgetInputChange\<close> the stored total budget is a
  number that is not negative, 0 for an empty input and for one that does not parse; the
  recalculation and a generation run leave it in place. With a budget stored, the average
  that \<open>calculateSummary\<close> computes is null exactly when the duration is null or not
  greater than 0. Apart from the aggregator, a generation run sets the average to null
  when it starts; it stays null when the run fails, and when the run succeeds the
  aggregator computes it again.
\<close>

theorem budget_after_edit:
  "((\<exists>q. 0 \<le> q \<and> totalBudget (onTotalBudgetInputChange s) = Some (Num q)) \<or>
    totalBudget (onTotalBudgetInputChange s) = Some PInf) \<and>
   (totalBudgetInput s = [] \<or>
    parseFloat (normalizedString (cleanedString (totalBudgetInput s))) = NaN
      \<longrightarrow> totalBudget (onTotalBudgetInputChange s) = Some (Num 0)) \<and>
   (averageDailyBudgetRemaining (onTotalBudgetInputChange s) = None
      \<longleftrightarrow> (duration s = None \<or> (\<exists>d. duration s = Some d \<and> \<not> num_gt d (Num 0)))) \<and>
   totalBudget (calculateSummary t) = totalBudget t \<and>
   totalBudget (settled (generateItinerary e t)) = totalBudget t \<and>
   (totalBudget t \<noteq> None \<longrightarrow>
      (averageDailyBudgetRemaining (calculateSummary t) = None
         \<longleftrightarrow> (duration t = None \<or> (\<exists>d. duration t = Some d \<and> \<not> num_gt d (Num 0))))) \<and>
   (destination t \<noteq> [] \<and> duration t = Some d \<and> d \<noteq> Num 0 \<and> \<not> isNaN d \<longrightarrow>
      (\<exists>g. awaiting (generateItinerary e t) = Some g \<and> averageDailyBudgetRemaining g = None) \<and>
      (generateContent e (buildPrompt e t) = Inl err \<or>
       generateContent e (buildPrompt e t) = Inr resp \<and>
       JSON_parse e (trim (response_text resp)) = Inl err \<longrightarrow>
         averageDailyBudgetRemaining (settled (generateItinerary e t)) = None) \<and>
      (generateContent e (buildPrompt e t) = Inr resp \<and>
       JSON_parse e (trim (response_text resp)) = Inr parsed \<and> totalBudget t \<noteq> None \<longrightarrow>
         (averageDailyBudgetRemaining (settled (generateItinerary e t)) = None
            \<longleftrightarrow> \<not> num_gt d (Num 0))))"
proof (intro conjI)
  have tb: "totalBudget (onTotalBudgetInputChange s) = Some (amount (parseCurrency (totalBudgetInput s)))"
    by (simp add: onTotalBudgetInputChange_def calculateSummary_inputs)
  from amount_parseCurrency_range [of "totalBudgetInput s"]
  show "(\<exists>q. 0 \<le> q \<and> totalBudget (onTotalBudgetInputChange s) = Some (Num q)) \<or>
    totalBudget (onTotalBudgetInputChange s) = Some PInf"
    by (simp add: tb nonneg_number_iff)
  show "totalBudgetInput s = [] \<or>
        parseFloat (normalizedString (cleanedString (totalBudgetInput s))) = NaN
      \<longrightarrow> totalBudget (onTotalBudgetInputChange s) = Some (Num 0)"
    by (auto simp: tb parseCurrency_def or_zero_def)
  show "averageDailyBudgetRemaining (onTotalBudgetInputChange s) = None
      \<longleftrightarrow> (duration s = None \<or> (\<exists>d. duration s = Some d \<and> \<not> num_gt d (Num 0)))"
    by (auto simp: onTotalBudgetInputChange_def calculateSummary_average split: option.splits)
  show "totalBudget (calculateSummary t) = totalBudget t"
    by (rule calculateSummary_inputs)
  show "totalBudget (settled (generateItinerary e t)) = totalBudget t"
    by (rule generateItinerary_totalBudget)
  show "totalBudget t \<noteq> None \<longrightarrow>
      (averageDailyBudgetRemaining (calculateSummary t) = None
         \<longleftrightarrow> (duration t = None \<or> (\<exists>d. duration t = Some d \<and> \<not> num_gt d (Num 0))))"
    by (auto simp: calculateSummary_average split: option.splits)
  show "destination t \<noteq> [] \<and> duration t = Some d \<and> d \<noteq> Num 0 \<and> \<not> isNaN d \<longrightarrow>
      (\<exists>g. awaiting (generateItinerary e t) = Some g \<and> averageDailyBudgetRemaining g = None) \<and>
      (generateContent e (buildPrompt e t) = Inl err \<or>
       generateContent e (buildPrompt e t) = Inr resp \<and>
       JSON_parse e (trim (response_text resp)) = Inl err \<longrightarrow>
         averageDailyBudgetRemaining (settled (generateItinerary e t)) = None) \<and>
      (generateContent e (buildPrompt e t) = Inr resp \<and>
       JSON_parse e (trim (response_text resp)) = Inr parsed \<and> totalBudget t \<noteq> None \<longrightarrow>
         (averageDailyBudgetRemaining (settled (generateItinerary e t)) = None
            \<longleftrightarrow> \<not> num_gt d (Num 0)))"
  proof (intro impI conjI)
    assume "destination t \<noteq> [] \<and> duration t = Some d \<and> d \<noteq> Num 0 \<and> \<not> isNaN d"
    then have v: "destination t \<noteq> []" "duration t = Some d" "d \<noteq> Num 0" "\<not> isNaN d"
      by simp_all
    show "\<exists>g. awaiting (generateItinerary e t) = Some g \<and> averageDailyBudgetRemaining g = None"
      by (simp add: generateItinerary_started [OF v] startGeneration_def)
    show "averageDailyBudgetRemaining (settled (generateItinerary e t)) = None"
      if "generateContent e (buildPrompt e t) = Inl err \<or>
          generateContent e (buildPrompt e t) = Inr resp \<and>
          JSON_parse e (trim (response_text resp)) = Inl err"
      by (simp add: generateItinerary_thrown [OF v that] catchError_def startGeneration_def
          split: js_error.split)
    show "averageDailyBudgetRemaining (settled (generateItinerary e t)) = None
            \<longleftrightarrow> \<not> num_gt d (Num 0)"
      if "generateContent e (buildPrompt e t) = Inr resp \<and>
          JSON_parse e (trim (response_text resp)) = Inr parsed \<and> totalBudget t \<noteq> None"
    proof -
      from that have g: "generateContent e (buildPrompt e t) = Inr resp"
        and p: "JSON_parse e (trim (response_text resp)) = Inr parsed"
        and b: "totalBudget t \<noteq> None"
        by simp_all
      from b v(2) show ?thesis
        by (auto simp: generateItinerary_parsed [OF v g p] calculateSummary_average
            startGeneration_def)
    qed
  qed
qed

text \<open>
  The theorem at the budget input \<open>abc\<close>, with a duration of three days and without
  one, and at a run that fails after the budget was entered.
\<close>

theorem budget_after_edit_witness:
  "totalBudget (onTotalBudgetInputChange (kyoto_state\<lparr>totalBudgetInput := ''abc''\<rparr>)) = Some (Num 0) \<and>
   averageDailyBudgetRemaining (onTotalBudgetInputChange (kyoto_state\<lparr>totalBudgetInput := ''abc''\<rparr>)) \<noteq> None \<and>
   averageDailyBudgetRemaining
     (onTotalBudgetInputChange (kyoto_state\<lparr>totalBudgetInput := ''abc'', duration := None\<rparr>)) = None \<and>
   averageDailyBudgetRemaining
     (settled (generateItinerary (mock_env (Inl (OtherError ''fetch failed'')) (Inr []))
        (kyoto_state\<lparr>totalBudget := Some (Num 100)\<rparr>))) = None"
proof -
  let ?s = "kyoto_state\<lparr>totalBudgetInput := ''abc''\<rparr>"
  let ?t = "kyoto_state\<lparr>totalBudget := Some (Num 100)\<rparr>"
  let ?e = "mock_env (Inl (OtherError ''fetch failed'')) (Inr [])"
  have c: "cleanedString ''abc'' = []"
    by (simp add: cleanedString_def is_digit_def)
  have u: "parseFloat (normalizedString (cleanedString (totalBudgetInput ?s))) = NaN"
    by (simp add: c normalizedString_def parseFloat_def)
  have d: "duration ?s = Some (Num 3)" "num_gt (Num 3) (Num 0)"
    by (simp_all add: kyoto_state_def)
  from budget_after_edit [of ?s] u d
  have a: "totalBudget (onTotalBudgetInputChange ?s) = Some (Num 0) \<and>
           averageDailyBudgetRemaining (onTotalBudgetInputChange ?s) \<noteq> None"
    by simp
  from budget_after_edit [of "?s\<lparr>duration := None\<rparr>"]
  have b: "averageDailyBudgetRemaining (onTotalBudgetInputChange (?s\<lparr>duration := None\<rparr>)) = None"
    by simp
  have v: "destination ?t \<noteq> [] \<and> duration ?t = Some (Num 3) \<and> Num 3 \<noteq> Num 0 \<and> \<not> isNaN (Num 3)"
    by (simp add: kyoto_state_def)
  have g: "generateContent ?e (buildPrompt ?e ?t) = Inl (OtherError ''fetch failed'')"
    by (simp add: mock_env_def)
  from budget_after_edit [where t = ?t and d = "Num 3" and e = ?e and err = "OtherError ''fetch failed''"] v g
  have f: "averageDailyBudgetRemaining (settled (generateItinerary ?e ?t)) = None"
    by simp
  from a b f show ?thesis by simp
qed

text \<open>
  Claim C10 as stated fails after a generation run that fails: the budget of 100 and the
  duration of three days are in place and the average was a number, yet the run has set
  it to null and nothing computes it again.
\<close>

theorem average_cleared_by_generation:
  "totalBudget (onTotalBudgetInputChange (kyoto_state\<lparr>totalBudgetInput := ''100 IDR''\<rparr>)) =
     Some (Num 100) \<and>
   duration (onTotalBudgetInputChange (kyoto_state\<lparr>totalBudgetInput := ''100 IDR''\<rparr>)) =
     Some (Num 3) \<and>
   num_gt (Num 3) (Num 0) \<and>
   averageDailyBudgetRemaining (onTotalBudgetInputChange (kyoto_state\<lparr>totalBudgetInput := ''100 IDR''\<rparr>)) =
     Some (Num (100 / 3)) \<and>
   totalBudget (settled (generateItinerary (mock_env (Inl (OtherError ''fetch failed'')) (Inr []))
     (onTotalBudgetInputChange (kyoto_state\<lparr>totalBudgetInput := ''100 IDR''\<rparr>)))) = Some (Num 100) \<and>
   duration (settled (generateItinerary (mock_env (Inl (OtherError ''fetch failed'')) (Inr []))
     (onTotalBudgetInputChange (kyoto_state\<lparr>totalBudgetInput := ''100 IDR''\<rparr>)))) = Some (Num 3) \<and>
   averageDailyBudgetRemaining
     (settled (generateItinerary (mock_env (Inl (OtherError ''fetch failed'')) (Inr []))
        (onTotalBudgetInputChange (kyoto_state\<lparr>totalBudgetInput := ''100 IDR''\<rparr>)))) = None"
proof -
  let ?s = "onTotalBudgetInputChange (kyoto_state\<lparr>totalBudgetInput := ''100 IDR''\<rparr>)"
  let ?e = "mock_env (Inl (OtherError ''fetch failed'')) (Inr [])"
  have s: "?s = kyoto_state\<lparr>totalBudgetInput := ''100 IDR'', totalBudget := Some (Num 100),
             averageDailyBudgetRemaining := Some (Num (100 / 3))\<rparr>"
    by (simp add: onTotalBudgetInputChange_def calculateSummary_eq sample_cost_3 kyoto_state_def
        initial_state_def all_activities_def counted_costs_def num_sum_def num_sub_def
        small_numbers)
  have v: "destination ?s \<noteq> []" "duration ?s = Some (Num 3)" "Num 3 \<noteq> Num 0" "\<not> isNaN (Num 3)"
    unfolding s by (simp_all add: kyoto_state_def)
  have g: "generateContent ?e (buildPrompt ?e ?s) = Inl (OtherError ''fetch failed'') \<or>
           generateContent ?e (buildPrompt ?e ?s) = Inr undefined \<and>
           JSON_parse ?e (trim (response_text undefined)) = Inl (OtherError ''fetch failed'')"
    by (simp add: mock_env_def)
  have r: "settled (generateItinerary ?e ?s) =
             (startGeneration ?s)\<lparr>error := Some (generic_message ''fetch failed''), isLoading := False\<rparr>"
    by (simp add: generateItinerary_thrown [OF v g] catchError_def)
  have a: "averageDailyBudgetRemaining (settled (generateItinerary ?e ?s)) = None"
    and b: "totalBudget (settled (generateItinerary ?e ?s)) = totalBudget ?s"
    and d: "duration (settled (generateItinerary ?e ?s)) = duration ?s"
    unfolding r by (simp_all add: startGeneration_def)
  have i: "totalBudget ?s = Some (Num 100)" "averageDailyBudgetRemaining ?s = Some (Num (100 / 3))"
    unfolding s by simp_all
  from a b d i v(2) show ?thesis by simp
qed

subsection \<open>The generation workflow\<close>

text \<open>
  Claim C4, amended. When the destination is not empty and the duration is a number other
  than 0 and NaN, \<open>generateItinerary\<close> raises the loading flag and calls the generation
  service once, with the prompt. Otherwise, that is with an empty destination or a
  duration that is null, 0 or NaN, it only sets the validation message and calls nothing.
\<close>

theorem generation_gate:
  "(destination s \<noteq> [] \<and> (\<exists>d. duration s = Some d \<and> d \<noteq> Num 0 \<and> \<not> isNaN d) \<longrightarrow>
      awaiting (generateItinerary e s) = Some (startGeneration s) \<and>
      isLoading (startGeneration s) \<and>
      calls (generateItinerary e s) = [buildPrompt e s]) \<and>
   (destination s = [] \<or> duration s = None \<or> duration s = Some (Num 0) \<or> duration s = Some NaN \<longrightarrow>
      awaiting (generateItinerary e s) = None \<and>
      calls (generateItinerary e s) = [] \<and>
      settled (generateItinerary e s) = s\<lparr>error := Some validation_message\<rparr>)"
proof (intro conjI impI)
  assume "destination s \<noteq> [] \<and> (\<exists>d. duration s = Some d \<and> d \<noteq> Num 0 \<and> \<not> isNaN d)"
  then obtain d where v: "destination s \<noteq> []" "duration s = Some d" "d \<noteq> Num 0" "\<not> isNaN d"
    by auto
  show "awaiting (generateItinerary e s) = Some (startGeneration s)"
    and "calls (generateItinerary e s) = [buildPrompt e s]"
    by (rule generateItinerary_started [OF v])+
  show "isLoading (startGeneration s)"
    by (simp add: startGeneration_def)
next
  assume r: "destination s = [] \<or> duration s = None \<or> duration s = Some (Num 0) \<or> duration s = Some NaN"
  show "awaiting (generateItinerary e s) = None" and "calls (generateItinerary e s) = []"
    and "settled (generateItinerary e s) = s\<lparr>error := Some validation_message\<rparr>"
    by (simp_all add: generateItinerary_rejected [OF r])
qed

text \<open>
  The theorem at the Kyoto form and at the empty form.
\<close>

theorem generation_gate_witness:
  "destination kyoto_state \<noteq> [] \<and> duration kyoto_state = Some (Num 3) \<and>
   awaiting (generateItinerary (mock_env (Inr \<lparr>response_text = ''[]''\<rparr>) (Inr [])) kyoto_state) =
     Some (startGeneration kyoto_state) \<and>
   isLoading (startGeneration kyoto_state) \<and>
   length (calls (generateItinerary (mock_env (Inr \<lparr>response_text = ''[]''\<rparr>) (Inr [])) kyoto_state)) = 1 \<and>
   destination initial_state = [] \<and>
   calls (generateItinerary (mock_env (Inr \<lparr>response_text = ''[]''\<rparr>) (Inr [])) initial_state) = [] \<and>
   error (settled (generateItinerary (mock_env (Inr \<lparr>response_text = ''[]''\<rparr>) (Inr [])) initial_state)) =
     Some validation_message"
proof -
  let ?e = "mock_env (Inr \<lparr>response_text = ''[]''\<rparr>) (Inr [])"
  have k: "destination kyoto_state \<noteq> []" "duration kyoto_state = Some (Num 3)"
    by (simp_all add: kyoto_state_def)
  have i: "destination initial_state = []"
    by (simp add: initial_state_def)
  from generation_gate [of kyoto_state ?e] k
  have a: "awaiting (generateItinerary ?e kyoto_state) = Some (startGeneration kyoto_state) \<and>
           isLoading (startGeneration kyoto_state) \<and>
           calls (generateItinerary ?e kyoto_state) = [buildPrompt ?e kyoto_state]"
    by simp
  from generation_gate [of initial_state ?e] i
  have r: "calls (generateItinerary ?e initial_state) = [] \<and>
           settled (generateItinerary ?e initial_state) = initial_state\<lparr>error := Some validation_message\<rparr>"
    by simp
  from k i a r show ?thesis by simp
qed

text \<open>
  Claim C4 as stated fails at a duration of 0 days: the destination is filled in and
  the duration is not null, yet \<open>!this.duration()\<close> holds, the validation message is set
  and the service is not called.
\<close>

theorem zero_duration_rejected:
  "destination (kyoto_state\<lparr>duration := Some (Num 0)\<rparr>) \<noteq> [] \<and>
   duration (kyoto_state\<lparr>duration := Some (Num 0)\<rparr>) \<noteq> None \<and>
   awaiting (generateItinerary (mock_env (Inr \<lparr>response_text = ''[]''\<rparr>) (Inr []))
               (kyoto_state\<lparr>duration := Some (Num 0)\<rparr>)) = None \<and>
   calls (generateItinerary (mock_env (Inr \<lparr>response_text = ''[]''\<rparr>) (Inr []))
            (kyoto_state\<lparr>duration := Some (Num 0)\<rparr>)) = [] \<and>
   error (settled (generateItinerary (mock_env (Inr \<lparr>response_text = ''[]''\<rparr>) (Inr []))
                     (kyoto_state\<lparr>duration := Some (Num 0)\<rparr>))) = Some validation_message"
  by (simp add: generateItinerary_def kyoto_state_def)

text \<open>
  Claim C5, amended. In a run that passes the validation, an exception of the call or of
  the parse ends the run with the loading flag cleared and the itinerary null, and with an
  error that depends on the exception alone, not on where it was thrown. A
  \<open>SyntaxError\<close> whose message contains \<open>JSON\<close>, as \<open>JSON.parse\<close> throws it for a
  response text that is not valid JSON, gives the malformed-response message, also when the
  call threw it. Another value with properties gives the generic message with its
  \<open>message\<close>, or with the fallback phrase when it has none; that holds for a
  \<open>SyntaxError\<close> whose message does not contain \<open>JSON\<close> too. A thrown \<open>null\<close> or
  \<open>undefined\<close> sets no error: the promise is rejected.
\<close>

theorem generation_failure:
  assumes "destination s \<noteq> []" "duration s = Some d" "d \<noteq> Num 0" "\<not> isNaN d"
    and "generateContent e (buildPrompt e s) = Inl err \<or>
         generateContent e (buildPrompt e s) = Inr resp \<and>
         JSON_parse e (trim (response_text resp)) = Inl err"
  shows
    "itinerary (settled (generateItinerary e s)) = None \<and>
     \<not> isLoading (settled (generateItinerary e s)) \<and>
     (err = SyntaxError (p @ ''JSON'' @ q) \<longrightarrow>
        error (settled (generateItinerary e s)) = Some malformed_message \<and>
        \<not> rejected (generateItinerary e s)) \<and>
     (err = OtherError m \<or> err = SyntaxError m \<and> (\<forall>p q. m \<noteq> p @ ''JSON'' @ q) \<longrightarrow>
        error (settled (generateItinerary e s)) = Some (generic_message m) \<and>
        \<not> rejected (generateItinerary e s)) \<and>
     (err = Nullish \<longrightarrow>
        error (settled (generateItinerary e s)) = None \<and> rejected (generateItinerary e s))"
proof (intro conjI impI)
  note run = generateItinerary_thrown [OF assms]
  show "itinerary (settled (generateItinerary e s)) = None"
    and "\<not> isLoading (settled (generateItinerary e s))"
    by (simp_all add: run catchError_def startGeneration_def split: js_error.split)
  show "error (settled (generateItinerary e s)) = Some malformed_message"
    and "\<not> rejected (generateItinerary e s)"
    if "err = SyntaxError (p @ ''JSON'' @ q)"
    unfolding run that catchError_json by simp_all
  show "error (settled (generateItinerary e s)) = Some (generic_message m)"
    and "\<not> rejected (generateItinerary e s)"
    if "err = OtherError m \<or> err = SyntaxError m \<and> (\<forall>p q. m \<noteq> p @ ''JSON'' @ q)"
    using that by (auto simp: run catchError_other)
  show "error (settled (generateItinerary e s)) = None" and "rejected (generateItinerary e s)"
    if "err = Nullish"
    by (simp_all add: run that catchError_other startGeneration_def)
qed

text \<open>
  The theorem at the response text \<open>{not json\<close>, at a rejected call, at an exception
  without a message, and at a thrown \<open>null\<close>.
\<close>

theorem generation_failure_witness:
  "error (settled (generateItinerary
      (mock_env (Inr \<lparr>response_text = ''{not json''\<rparr>)
         (Inl (SyntaxError ''Unexpected token n in JSON at position 1'')))
      kyoto_state)) = Some malformed_message \<and>
   itinerary (settled (generateItinerary
      (mock_env (Inr \<lparr>response_text = ''{not json''\<rparr>)
         (Inl (SyntaxError ''Unexpected token n in JSON at position 1'')))
      kyoto_state)) = None \<and>
   error (settled (generateItinerary (mock_env (Inl (OtherError ''fetch failed'')) (Inr []))
      kyoto_state)) = Some ''Gagal membuat itinerary: fetch failed'' \<and>
   error (settled (generateItinerary (mock_env (Inl (OtherError [])) (Inr []))
      kyoto_state)) = Some ''Gagal membuat itinerary: Terjadi kesalahan tidak terduga.'' \<and>
   error (settled (generateItinerary (mock_env (Inl Nullish) (Inr [])) kyoto_state)) = None \<and>
   rejected (generateItinerary (mock_env (Inl Nullish) (Inr [])) kyoto_state)"
proof -
  let ?bad = "SyntaxError ''Unexpected token n in JSON at position 1''"
  let ?r = "\<lparr>response_text = ''{not json''\<rparr>"
  let ?e1 = "mock_env (Inr ?r) (Inl ?bad)"
  let ?e2 = "mock_env (Inl (OtherError ''fetch failed'')) (Inr [])"
  let ?e3 = "mock_env (Inl (OtherError [])) (Inr [])"
  let ?e4 = "mock_env (Inl Nullish) (Inr [])"
  have k: "destination kyoto_state \<noteq> []" "duration kyoto_state = Some (Num 3)"
    "Num 3 \<noteq> Num 0" "\<not> isNaN (Num 3)"
    by (simp_all add: kyoto_state_def)
  have j: "?bad = SyntaxError (''Unexpected token n in '' @ ''JSON'' @ '' at position 1'')"
    by simp
  have t1: "generateContent ?e1 (buildPrompt ?e1 kyoto_state) = Inl ?bad \<or>
            generateContent ?e1 (buildPrompt ?e1 kyoto_state) = Inr ?r \<and>
            JSON_parse ?e1 (trim (response_text ?r)) = Inl ?bad"
    by (simp add: mock_env_def)
  have t2: "generateContent ?e2 (buildPrompt ?e2 kyoto_state) = Inl (OtherError ''fetch failed'') \<or>
            generateContent ?e2 (buildPrompt ?e2 kyoto_state) = Inr ?r \<and>
            JSON_parse ?e2 (trim (response_text ?r)) = Inl (OtherError ''fetch failed'')"
    and t3: "generateContent ?e3 (buildPrompt ?e3 kyoto_state) = Inl (OtherError []) \<or>
            generateContent ?e3 (buildPrompt ?e3 kyoto_state) = Inr ?r \<and>
            JSON_parse ?e3 (trim (response_text ?r)) = Inl (OtherError [])"
    and t4: "generateContent ?e4 (buildPrompt ?e4 kyoto_state) = Inl Nullish \<or>
            generateContent ?e4 (buildPrompt ?e4 kyoto_state) = Inr ?r \<and>
            JSON_parse ?e4 (trim (response_text ?r)) = Inl Nullish"
    by (simp_all add: mock_env_def)
  note f1 = generation_failure [OF k t1, where p = "''Unexpected token n in ''"
      and q = "'' at position 1''" and m = "[]"]
  note f2 = generation_failure [OF k t2, where p = "[]" and q = "[]" and m = "''fetch failed''"]
  note f3 = generation_failure [OF k t3, where p = "[]" and q = "[]" and m = "[]"]
  note f4 = generation_failure [OF k t4, where p = "[]" and q = "[]" and m = "[]"]
  have a: "error (settled (generateItinerary ?e1 kyoto_state)) = Some malformed_message \<and>
           itinerary (settled (generateItinerary ?e1 kyoto_state)) = None"
    using mp [OF f1 [THEN conjunct2, THEN conjunct2, THEN conjunct1] j] conjunct1 [OF f1]
    by blast
  have b: "error (settled (generateItinerary ?e2 kyoto_state)) =
             Some (generic_message ''fetch failed'')"
    using mp [OF f2 [THEN conjunct2, THEN conjunct2, THEN conjunct2, THEN conjunct1] disjI1 [OF refl]]
    by (rule conjunct1)
  have c: "error (settled (generateItinerary ?e3 kyoto_state)) = Some (generic_message [])"
    using mp [OF f3 [THEN conjunct2, THEN conjunct2, THEN conjunct2, THEN conjunct1] disjI1 [OF refl]]
    by (rule conjunct1)
  have d: "error (settled (generateItinerary ?e4 kyoto_state)) = None \<and>
           rejected (generateItinerary ?e4 kyoto_state)"
    by (rule mp [OF f4 [THEN conjunct2, THEN conjunct2, THEN conjunct2, THEN conjunct2] refl])
  from a b c d show ?thesis
    by (simp add: generic_message_def)
qed

text \<open>
  Claim C5 as stated fails when the call itself rejects with a \<open>SyntaxError\<close> whose
  message contains \<open>JSON\<close>: no response text was parsed, yet the error is the
  malformed-response message and not the generic one with the text of the exception.
\<close>

theorem call_syntax_error_malformed:
  "generateContent (mock_env (Inl (SyntaxError ''Unexpected token < in JSON at position 0'')) (Inr []))
     (buildPrompt (mock_env (Inl (SyntaxError ''Unexpected token < in JSON at position 0'')) (Inr []))
        kyoto_state) = Inl (SyntaxError ''Unexpected token < in JSON at position 0'') \<and>
   error (settled (generateItinerary
     (mock_env (Inl (SyntaxError ''Unexpected token < in JSON at position 0'')) (Inr []))
     kyoto_state)) = Some malformed_message \<and>
   malformed_message \<noteq> generic_message ''Unexpected token < in JSON at position 0''"
proof -
  let ?bad = "SyntaxError ''Unexpected token < in JSON at position 0''"
  let ?e = "mock_env (Inl ?bad) (Inr [])"
  have k: "destination kyoto_state \<noteq> []" "duration kyoto_state = Some (Num 3)"
    "Num 3 \<noteq> Num 0" "\<not> isNaN (Num 3)"
    by (simp_all add: kyoto_state_def)
  have g: "generateContent ?e (buildPrompt ?e kyoto_state) = Inl ?bad"
    by (simp add: mock_env_def)
  then have t: "generateContent ?e (buildPrompt ?e kyoto_state) = Inl ?bad \<or>
            generateContent ?e (buildPrompt ?e kyoto_state) = Inr undefined \<and>
            JSON_parse ?e (trim (response_text undefined)) = Inl ?bad"
    by simp
  have c: "catchError ?bad (startGeneration kyoto_state) =
             Some ((startGeneration kyoto_state)\<lparr>error := Some malformed_message\<rparr>)"
    using catchError_json [of "''Unexpected token < in ''" "'' at position 0''"] by simp
  have a: "error (settled (generateItinerary ?e kyoto_state)) = Some malformed_message"
    by (simp add: generateItinerary_thrown [OF k t] c)
  have n: "malformed_message \<noteq> generic_message ''Unexpected token < in JSON at position 0''"
    by (simp add: malformed_message_def generic_message_def)
  from g a n show ?thesis by simp
qed

text \<open>
  Claim C6. In a run that passes the validation and whose response parses, the itinerary
  becomes the parsed one, day for day, with the actual cost of every activity set to
  null, whatever the parsed value was.
\<close>

theorem generation_success:
  assumes "destination s \<noteq> []" "duration s = Some d" "d \<noteq> Num 0" "\<not> isNaN d"
    and "generateContent e (buildPrompt e s) = Inr resp"
    and "JSON_parse e (trim (response_text resp)) = Inr parsed"
  shows "itinerary (settled (generateItinerary e s)) = Some (initializeItinerary parsed) \<and>
         length (initializeItinerary parsed) = length parsed \<and>
         (\<forall>dayPlan\<in>set (initializeItinerary parsed).
            \<forall>a\<in>set (activities dayPlan). actualCost a = None)"
proof (intro conjI)
  show "itinerary (settled (generateItinerary e s)) = Some (initializeItinerary parsed)"
    by (simp add: generateItinerary_parsed [OF assms] calculateSummary_inputs)
  show "length (initializeItinerary parsed) = length parsed"
    by (simp add: initializeItinerary_def)
  show "\<forall>dayPlan\<in>set (initializeItinerary parsed). \<forall>a\<in>set (activities dayPlan). actualCost a = None"
    by (rule initializeItinerary_actualCost)
qed

text \<open>
  The theorem at a response of three days whose activities come with actual costs.
\<close>

theorem generation_success_witness:
  "itinerary (settled (generateItinerary
      (mock_env (Inr \<lparr>response_text = ''[{}, {}, {}]''\<rparr>) (Inr [sample_day, sample_day, sample_day]))
      kyoto_state)) = Some (initializeItinerary [sample_day, sample_day, sample_day]) \<and>
   length (initializeItinerary [sample_day, sample_day, sample_day]) = 3 \<and>
   map (\<lambda>dayPlan. map actualCost (activities dayPlan)) [sample_day, sample_day, sample_day] =
     [[Some (Num 20), Some NaN], [Some (Num 20), Some NaN], [Some (Num 20), Some NaN]] \<and>
   map (\<lambda>dayPlan. map actualCost (activities dayPlan))
     (initializeItinerary [sample_day, sample_day, sample_day]) =
     [[None, None], [None, None], [None, None]]"
proof -
  let ?e = "mock_env (Inr \<lparr>response_text = ''[{}, {}, {}]''\<rparr>) (Inr [sample_day, sample_day, sample_day])"
  have k: "destination kyoto_state \<noteq> []" "duration kyoto_state = Some (Num 3)"
    "Num 3 \<noteq> Num 0" "\<not> isNaN (Num 3)"
    by (simp_all add: kyoto_state_def)
  have g: "generateContent ?e (buildPrompt ?e kyoto_state) = Inr \<lparr>response_text = ''[{}, {}, {}]''\<rparr>"
    and p: "JSON_parse ?e (trim (response_text \<lparr>response_text = ''[{}, {}, {}]''\<rparr>)) =
            Inr [sample_day, sample_day, sample_day]"
    by (simp_all add: mock_env_def)
  from generation_success [OF k g p]
  have "itinerary (settled (generateItinerary ?e kyoto_state)) =
          Some (initializeItinerary [sample_day, sample_day, sample_day])"
    by simp
  then show ?thesis
    by (simp add: initializeItinerary_def sample_day_def)
qed

end
